theory Spec2Isabelle
  imports Main "HOL-Library.AList"
begin

section \<open>Python values\<close>

text \<open>
  The values that flow through the two adapters. A \<open>dict\<close> keeps its insertion order, so
  it is an association list; all dictionaries of the two modules have string keys.
  No arithmetic is ever done on a \<open>float\<close>: it is carried around and printed, so a float is
  named by the text that Python's \<open>float.__repr__\<close> prints for it (\<open>1.5\<close>, \<open>nan\<close>, \<open>inf\<close>).
  \<open>PBytes\<close> is a \<open>bytes\<close> object, a value of type \<open>Any\<close> that is not JSON serializable.
\<close>

type_synonym pyfloat = string

datatype pyval =
    PNone
  | PBool bool
  | PInt int
  | PFloat pyfloat
  | PStr string
  | PBytes string
  | PList "pyval list"
  | PDict "(string \<times> pyval) list"

type_synonym pydict = "(string \<times> pyval) list"

datatype pyerror =
    TypeError
  | ValueError
  | RecursionError
  | AttributeError
  | JSONDecodeError
  | HTTPStatusError int
  | TransportError string

text \<open>\<open>d[k] = v\<close>: an existing key keeps its place, a new key goes to the end.\<close>

definition setitem :: "pydict \<Rightarrow> string \<Rightarrow> pyval \<Rightarrow> pydict" where
  "setitem d k v = AList.update k v d"

text \<open>\<open>isinstance(v, list)\<close> and \<open>v is None\<close>.\<close>

fun isinstance_list :: "pyval \<Rightarrow> bool" where
  "isinstance_list (PList xs) = True"
| "isinstance_list v = False"

fun is_None :: "pyval \<Rightarrow> bool" where
  "is_None PNone = True"
| "is_None v = False"

section \<open>The standard library's \<open>json.dumps\<close>\<close>

text \<open>
  Both modules import \<open>json\<close> and call \<open>json.dumps(v)\<close> with its default settings. What
  the call gives depends on the interpreter that runs it, so the helpers and the tools
  below take the function from the globals of their module, and the properties are proved
  for every function it may be.
\<close>

type_synonym dumps = "pyval \<Rightarrow> pyerror + string"

text \<open>
  For concrete inputs, the encoder of CPython with its default settings (\<open>ensure_ascii\<close>,
  separators \<open>", "\<close> and \<open>": "\<close>, \<open>allow_nan\<close>). Two limits of the interpreter are
  parameters: \<open>m\<close>, the longest decimal integer it converts
  (\<open>sys.get_int_max_str_digits()\<close>, with 0 for no limit), beyond which \<open>ValueError\<close> is
  raised, and \<open>d\<close>, the number of nested containers it can still enter before it raises
  \<open>RecursionError\<close>. A \<open>bytes\<close> object raises \<open>TypeError\<close>.
\<close>

definition hex_digit :: "nat \<Rightarrow> char" where
  "hex_digit n = ''0123456789abcdef'' ! (n mod 16)"

definition escape_char :: "char \<Rightarrow> string" where
  "escape_char c =
     (if c = CHR 0x22 then [CHR 0x5C, CHR 0x22]
      else if c = CHR 0x5C then [CHR 0x5C, CHR 0x5C]
      else if c = CHR 0x0A then [CHR 0x5C, CHR ''n'']
      else if c = CHR 0x0D then [CHR 0x5C, CHR ''r'']
      else if c = CHR 0x09 then [CHR 0x5C, CHR ''t'']
      else if c = CHR 0x08 then [CHR 0x5C, CHR ''b'']
      else if c = CHR 0x0C then [CHR 0x5C, CHR ''f'']
      else if (of_char c :: nat) < 32 \<or> 126 < (of_char c :: nat)
        then [CHR 0x5C, CHR ''u'', CHR ''0'', CHR ''0'',
              hex_digit (of_char c div 16), hex_digit (of_char c)]
      else [c])"

definition encode_basestring_ascii :: "string \<Rightarrow> string" where
  "encode_basestring_ascii s = CHR 0x22 # concat (map escape_char s) @ [CHR 0x22]"

fun nat_repr :: "nat \<Rightarrow> string" where
  "nat_repr n =
     (if n < 10 then [char_of (48 + n)]
      else nat_repr (n div 10) @ [char_of (48 + n mod 10)])"

declare nat_repr.simps [simp del]

definition int_repr :: "int \<Rightarrow> string" where
  "int_repr i = (if i < 0 then CHR ''-'' # nat_repr (nat (- i)) else nat_repr (nat i))"

text \<open>\<open>int.__repr__\<close> under the limit \<open>m\<close> on the number of digits.\<close>

definition int_repr_limited :: "nat \<Rightarrow> int \<Rightarrow> pyerror + string" where
  "int_repr_limited m i =
     (if 0 < m \<and> m < length (nat_repr (nat \<bar>i\<bar>)) then Inl ValueError else Inr (int_repr i))"

definition float_repr_json :: "pyfloat \<Rightarrow> string" where
  "float_repr_json r =
     (if r = ''nan'' then ''NaN''
      else if r = ''inf'' then ''Infinity''
      else if r = ''-inf'' then ''-Infinity''
      else r)"

fun join :: "string \<Rightarrow> string list \<Rightarrow> string" where
  "join sep [] = []"
| "join sep [s] = s"
| "join sep (s # t # ss) = s @ sep @ join sep (t # ss)"

fun json_dumps :: "nat \<Rightarrow> nat \<Rightarrow> pyval \<Rightarrow> pyerror + string"
  and dumps_list :: "nat \<Rightarrow> nat \<Rightarrow> pyval list \<Rightarrow> pyerror + string list"
  and dumps_items :: "nat \<Rightarrow> nat \<Rightarrow> (string \<times> pyval) list \<Rightarrow> pyerror + string list" where
  "json_dumps m d PNone = Inr ''null''"
| "json_dumps m d (PBool b) = Inr (if b then ''true'' else ''false'')"
| "json_dumps m d (PInt i) = int_repr_limited m i"
| "json_dumps m d (PFloat r) = Inr (float_repr_json r)"
| "json_dumps m d (PStr s) = Inr (encode_basestring_ascii s)"
| "json_dumps m d (PBytes b) = Inl TypeError"
| "json_dumps m d (PList xs) =
     (if d = 0 then Inl RecursionError
      else case dumps_list m (d - 1) xs of
             Inl e \<Rightarrow> Inl e
           | Inr ss \<Rightarrow> Inr (''['' @ join '', '' ss @ '']''))"
| "json_dumps m d (PDict kvs) =
     (if d = 0 then Inl RecursionError
      else case dumps_items m (d - 1) kvs of
             Inl e \<Rightarrow> Inl e
           | Inr ss \<Rightarrow> Inr (''{'' @ join '', '' ss @ ''}''))"
| "dumps_list m d [] = Inr []"
| "dumps_list m d (x # xs) =
     (case json_dumps m d x of
        Inl e \<Rightarrow> Inl e
      | Inr s \<Rightarrow> (case dumps_list m d xs of Inl e \<Rightarrow> Inl e | Inr ss \<Rightarrow> Inr (s # ss)))"
| "dumps_items m d [] = Inr []"
| "dumps_items m d ((k, v) # kvs) =
     (case json_dumps m d v of
        Inl e \<Rightarrow> Inl e
      | Inr s \<Rightarrow>
          (case dumps_items m d kvs of
             Inl e \<Rightarrow> Inl e
           | Inr ss \<Rightarrow> Inr ((encode_basestring_ascii k @ '': '' @ s) # ss)))"

section \<open>Parameter serialization\<close>

text \<open>
  \<open>serialize_params\<close> of \<open>binance_mcp.py\<close>: the loop over \<open>params.items()\<close>, with the
  dictionary \<open>out\<close> built so far as accumulator. An exception of \<open>json.dumps\<close> leaves the
  function. The first argument is the \<open>json.dumps\<close> the module has imported.
\<close>

fun serialize_params_loop :: "dumps \<Rightarrow> pydict \<Rightarrow> pydict \<Rightarrow> pyerror + pydict" where
  "serialize_params_loop dumps [] out = Inr out"
| "serialize_params_loop dumps ((k, v) # items) out =
     (if is_None v then serialize_params_loop dumps items out
      else if isinstance_list v then
        (case dumps v of
           Inl e \<Rightarrow> Inl e
         | Inr s \<Rightarrow> serialize_params_loop dumps items (setitem out k (PStr s)))
      else serialize_params_loop dumps items (setitem out k v))"

definition serialize_params :: "dumps \<Rightarrow> pydict \<Rightarrow> pyerror + pydict" where
  "serialize_params dumps params = serialize_params_loop dumps params []"

text \<open>
  \<open>serialize\<close> of \<open>dhan_mcp.py\<close>: the dictionary comprehension
  \<open>{k: (json.dumps(v) if isinstance(v, list) else v) for k, v in params.items() if v is not None}\<close>,
  which evaluates and stores one entry after the other.
\<close>

fun serialize_comp :: "dumps \<Rightarrow> pydict \<Rightarrow> pydict \<Rightarrow> pyerror + pydict" where
  "serialize_comp dumps [] d = Inr d"
| "serialize_comp dumps ((k, v) # items) d =
     (if \<not> is_None v then
        (if isinstance_list v then
           (case dumps v of
              Inl e \<Rightarrow> Inl e
            | Inr s \<Rightarrow> serialize_comp dumps items (setitem d k (PStr s)))
         else serialize_comp dumps items (setitem d k v))
      else serialize_comp dumps items d)"

definition serialize :: "dumps \<Rightarrow> pydict \<Rightarrow> pyerror + pydict" where
  "serialize dumps params = serialize_comp dumps params []"

section \<open>The HTTP client\<close>

text \<open>
  One call of \<open>httpx.AsyncClient.get\<close> or \<open>.request\<close> is described by its arguments; an
  argument that the call does not pass is \<open>None\<close>. A header value is what \<open>os.getenv\<close>
  gave: a string, or \<open>None\<close> for a variable that is not set.
\<close>

record request =
  req_method :: string
  req_url :: string
  req_headers :: "(string \<times> string option) list option"
  req_params :: "pydict option"
  req_json :: "pyval option"

text \<open>
  A response object: its status code, its \<open>.text\<close>, and what its \<open>.json()\<close> method gives,
  the parsed body or the decoding error for a body that is not JSON.
\<close>

record response =
  status_code :: int
  resp_text :: string
  resp_json :: "pyerror + pyval"

text \<open>
  The network, as one invocation sees it: the awaited call either raises (no connection,
  timeout) or yields a response.
\<close>

type_synonym network = "request \<Rightarrow> pyerror + response"

text \<open>
  \<open>Response.raise_for_status\<close>: raises \<open>HTTPStatusError\<close> unless the status code is a
  success code, 200 to 299.
\<close>

definition is_success :: "response \<Rightarrow> bool" where
  "is_success resp = (200 \<le> status_code resp \<and> status_code resp \<le> 299)"

definition raise_for_status :: "response \<Rightarrow> pyerror + unit" where
  "raise_for_status resp =
     (if is_success resp then Inr () else Inl (HTTPStatusError (status_code resp)))"

text \<open>
  What an invocation of a tool does: the value it returns or the exception that reaches the
  caller, the HTTP calls it made, in order, and the module's global state when it ends.
\<close>

record ('a, 'g) outcome =
  result :: "pyerror + 'a"
  sent :: "request list"
  globals_after :: 'g

definition raised :: "pyerror \<Rightarrow> request list \<Rightarrow> 'g \<Rightarrow> ('a, 'g) outcome" where
  "raised e reqs g = \<lparr>result = Inl e, sent = reqs, globals_after = g\<rparr>"

definition returned :: "'a \<Rightarrow> request list \<Rightarrow> 'g \<Rightarrow> ('a, 'g) outcome" where
  "returned x reqs g = \<lparr>result = Inr x, sent = reqs, globals_after = g\<rparr>"

text \<open>Arguments as Python values.\<close>

definition opt_str :: "string option \<Rightarrow> pyval" where
  "opt_str x = (case x of None \<Rightarrow> PNone | Some s \<Rightarrow> PStr s)"

definition opt_int :: "int option \<Rightarrow> pyval" where
  "opt_int x = (case x of None \<Rightarrow> PNone | Some i \<Rightarrow> PInt i)"

definition str_list :: "string list \<Rightarrow> pyval" where
  "str_list xs = PList (map PStr xs)"

definition opt_str_list :: "string list option \<Rightarrow> pyval" where
  "opt_str_list x = (case x of None \<Rightarrow> PNone | Some xs \<Rightarrow> str_list xs)"

text \<open>A parameter with a default value: \<open>None\<close> is the argument left out.\<close>

definition default_arg :: "'a \<Rightarrow> 'a option \<Rightarrow> 'a" where
  "default_arg d x = (case x of None \<Rightarrow> d | Some v \<Rightarrow> v)"

section \<open>The crypto adapter, \<open>binance_mcp.py\<close>\<close>

text \<open>
  The module's globals: the imported \<open>json.dumps\<close>, \<open>BASE_URL\<close> and the tools registered on
  \<open>mcp\<close>. Loading the module binds them.
\<close>

record binance_globals =
  binance_json :: dumps
  binance_BASE_URL :: string
  binance_tools :: "string list"

definition binance_module :: "dumps \<Rightarrow> binance_globals" where
  "binance_module json =
     \<lparr>binance_json = json,
      binance_BASE_URL = ''https://api.binance.com/api/v3/'',
      binance_tools =
        [''ExchangeInfoOfASymbol'', ''ExchangeInfoOfAllSymbols'', ''getTradeData'',
         ''AggTrades'', ''TradeHistory'', ''Depth'', ''CurrentAvgPrice'',
         ''PriceTickerIn24Hr'', ''TradingDayTicker'', ''SymbolPriceTicker'',
         ''SymbolOrderBookTicker'', ''RollingWindowTicker'']\<rparr>"

text \<open>
  The block that ends every tool of the module:
  \<open>resp = await client.get(url, params=params); resp.raise_for_status(); return resp.text\<close>.
\<close>

definition client_get_text ::
  "binance_globals \<Rightarrow> network \<Rightarrow> string \<Rightarrow> pydict option \<Rightarrow> (string, binance_globals) outcome" where
  "client_get_text g net url params =
     (let req = \<lparr>req_method = ''GET'', req_url = url, req_headers = None,
                 req_params = params, req_json = None\<rparr>
      in case net req of
           Inl e \<Rightarrow> raised e [req] g
         | Inr resp \<Rightarrow>
             (case raise_for_status resp of
                Inl e \<Rightarrow> raised e [req] g
              | Inr u \<Rightarrow> returned (resp_text resp) [req] g))"

definition ExchangeInfoOfASymbol ::
  "binance_globals \<Rightarrow> network \<Rightarrow> string \<Rightarrow> (string, binance_globals) outcome" where
  "ExchangeInfoOfASymbol g net symbol =
     client_get_text g net (binance_BASE_URL g @ ''exchangeInfo'')
       (Some [(''symbol'', PStr symbol)])"

definition ExchangeInfoOfAllSymbols ::
  "binance_globals \<Rightarrow> network \<Rightarrow> (string, binance_globals) outcome" where
  "ExchangeInfoOfAllSymbols g net =
     client_get_text g net (binance_BASE_URL g @ ''exchangeInfo'') None"

definition getTradeData ::
  "binance_globals \<Rightarrow> network \<Rightarrow> string \<Rightarrow> string \<Rightarrow> int option \<Rightarrow> int option \<Rightarrow> int option
     \<Rightarrow> (string, binance_globals) outcome" where
  "getTradeData g net symbol interval startTime endTime limit =
     (case serialize_params (binance_json g)
             [(''symbol'', PStr symbol),
              (''interval'', PStr interval),
              (''startTime'', opt_int startTime),
              (''endTime'', opt_int endTime),
              (''limit'', opt_int limit)] of
        Inl e \<Rightarrow> raised e [] g
      | Inr params \<Rightarrow>
          client_get_text g net (binance_BASE_URL g @ ''klines'') (Some params))"

definition AggTrades ::
  "binance_globals \<Rightarrow> network \<Rightarrow> string \<Rightarrow> int option \<Rightarrow> (string, binance_globals) outcome" where
  "AggTrades g net symbol limit =
     client_get_text g net (binance_BASE_URL g @ ''aggTrades'')
       (Some [(''symbol'', PStr symbol), (''limit'', PInt (default_arg 20 limit))])"

definition TradeHistory ::
  "binance_globals \<Rightarrow> network \<Rightarrow> string \<Rightarrow> int option \<Rightarrow> (string, binance_globals) outcome" where
  "TradeHistory g net symbol limit =
     client_get_text g net (binance_BASE_URL g @ ''historicalTrades'')
       (Some [(''symbol'', PStr symbol), (''limit'', PInt (default_arg 20 limit))])"

definition Depth ::
  "binance_globals \<Rightarrow> network \<Rightarrow> string \<Rightarrow> (string, binance_globals) outcome" where
  "Depth g net symbol =
     client_get_text g net (binance_BASE_URL g @ ''depth'') (Some [(''symbol'', PStr symbol)])"

definition CurrentAvgPrice ::
  "binance_globals \<Rightarrow> network \<Rightarrow> string \<Rightarrow> (string, binance_globals) outcome" where
  "CurrentAvgPrice g net symbol =
     client_get_text g net (binance_BASE_URL g @ ''avgPrice'') (Some [(''symbol'', PStr symbol)])"

definition PriceTickerIn24Hr ::
  "binance_globals \<Rightarrow> network \<Rightarrow> string \<Rightarrow> (string, binance_globals) outcome" where
  "PriceTickerIn24Hr g net symbol =
     client_get_text g net (binance_BASE_URL g @ ''ticker/24hr'')
       (Some [(''symbol'', PStr symbol)])"

definition TradingDayTicker ::
  "binance_globals \<Rightarrow> network \<Rightarrow> string list \<Rightarrow> (string, binance_globals) outcome" where
  "TradingDayTicker g net symbols =
     (case serialize_params (binance_json g) [(''symbols'', str_list symbols)] of
        Inl e \<Rightarrow> raised e [] g
      | Inr params \<Rightarrow>
          client_get_text g net (binance_BASE_URL g @ ''ticker/tradingDay'') (Some params))"

definition SymbolPriceTicker ::
  "binance_globals \<Rightarrow> network \<Rightarrow> string option \<Rightarrow> string list option
     \<Rightarrow> (string, binance_globals) outcome" where
  "SymbolPriceTicker g net symbol symbols =
     (case serialize_params (binance_json g) [(''symbol'', opt_str symbol), (''symbols'', opt_str_list symbols)] of
        Inl e \<Rightarrow> raised e [] g
      | Inr params \<Rightarrow>
          client_get_text g net (binance_BASE_URL g @ ''ticker/price'') (Some params))"

definition SymbolOrderBookTicker ::
  "binance_globals \<Rightarrow> network \<Rightarrow> string option \<Rightarrow> string list option
     \<Rightarrow> (string, binance_globals) outcome" where
  "SymbolOrderBookTicker g net symbol symbols =
     (case serialize_params (binance_json g) [(''symbol'', opt_str symbol), (''symbols'', opt_str_list symbols)] of
        Inl e \<Rightarrow> raised e [] g
      | Inr params \<Rightarrow>
          client_get_text g net (binance_BASE_URL g @ ''ticker/bookTicker'') (Some params))"

definition RollingWindowTicker ::
  "binance_globals \<Rightarrow> network \<Rightarrow> string option \<Rightarrow> string list option \<Rightarrow> string option
     \<Rightarrow> string option \<Rightarrow> (string, binance_globals) outcome" where
  "RollingWindowTicker g net symbol symbols windowSize type =
     (case serialize_params (binance_json g)
             [(''symbol'', opt_str symbol),
              (''symbols'', opt_str_list symbols),
              (''windowSize'', opt_str windowSize),
              (''type'', opt_str type)] of
        Inl e \<Rightarrow> raised e [] g
      | Inr params \<Rightarrow>
          client_get_text g net (binance_BASE_URL g @ ''ticker'') (Some params))"

text \<open>
  An invocation of one of the twelve registered tools, with its arguments. The hosting
  framework validates the arguments against the annotations of the signature, so an
  argument has the type its annotation names: \<open>str\<close>, \<open>int\<close>, \<open>List[str]\<close>, or an \<open>Optional\<close>
  of these.
\<close>

datatype binance_call =
    Call_ExchangeInfoOfASymbol string
  | Call_ExchangeInfoOfAllSymbols
  | Call_getTradeData string string "int option" "int option" "int option"
  | Call_AggTrades string "int option"
  | Call_TradeHistory string "int option"
  | Call_Depth string
  | Call_CurrentAvgPrice string
  | Call_PriceTickerIn24Hr string
  | Call_TradingDayTicker "string list"
  | Call_SymbolPriceTicker "string option" "string list option"
  | Call_SymbolOrderBookTicker "string option" "string list option"
  | Call_RollingWindowTicker "string option" "string list option" "string option" "string option"

fun binance_invoke ::
  "binance_globals \<Rightarrow> network \<Rightarrow> binance_call \<Rightarrow> (string, binance_globals) outcome" where
  "binance_invoke g net (Call_ExchangeInfoOfASymbol symbol) = ExchangeInfoOfASymbol g net symbol"
| "binance_invoke g net Call_ExchangeInfoOfAllSymbols = ExchangeInfoOfAllSymbols g net"
| "binance_invoke g net (Call_getTradeData symbol interval startTime endTime limit) =
     getTradeData g net symbol interval startTime endTime limit"
| "binance_invoke g net (Call_AggTrades symbol limit) = AggTrades g net symbol limit"
| "binance_invoke g net (Call_TradeHistory symbol limit) = TradeHistory g net symbol limit"
| "binance_invoke g net (Call_Depth symbol) = Depth g net symbol"
| "binance_invoke g net (Call_CurrentAvgPrice symbol) = CurrentAvgPrice g net symbol"
| "binance_invoke g net (Call_PriceTickerIn24Hr symbol) = PriceTickerIn24Hr g net symbol"
| "binance_invoke g net (Call_TradingDayTicker symbols) = TradingDayTicker g net symbols"
| "binance_invoke g net (Call_SymbolPriceTicker symbol symbols) =
     SymbolPriceTicker g net symbol symbols"
| "binance_invoke g net (Call_SymbolOrderBookTicker symbol symbols) =
     SymbolOrderBookTicker g net symbol symbols"
| "binance_invoke g net (Call_RollingWindowTicker symbol symbols windowSize type) =
     RollingWindowTicker g net symbol symbols windowSize type"

section \<open>The brokerage adapter, \<open>dhan_mcp.py\<close>\<close>

text \<open>The \<open>Context\<close> object of the hosting framework, an opaque handle.\<close>

datatype Context = Context nat

text \<open>
  The module's globals. Importing the module reads the two environment variables, once, and
  builds \<open>HEADERS\<close> from them; \<open>os.getenv\<close> gives \<open>None\<close> for a variable that is not set.
  \<open>mcp_ctx\<close> is the attribute \<open>ctx\<close> of the object \<open>mcp\<close>: the class \<open>FastMCP\<close> defines no
  such attribute and the module never sets one, so it is absent (\<open>None\<close>) in the module as
  loaded.
\<close>

record dhan_globals =
  dhan_json :: dumps
  dhan_BASE_URL :: string
  CLIENT_ID :: "string option"
  ACCESS_TOKEN :: "string option"
  HEADERS :: "(string \<times> string option) list"
  mcp_ctx :: "Context option"
  dhan_tools :: "string list"

definition dhan_module :: "(string \<Rightarrow> string option) \<Rightarrow> dumps \<Rightarrow> dhan_globals" where
  "dhan_module getenv json =
     (let client_id = getenv ''DHAN_CLIENT_ID'';
          access_token = getenv ''DHAN_ACCESS_TOKEN''
      in \<lparr>dhan_json = json,
          dhan_BASE_URL = ''https://api.dhan.co/v2'',
          CLIENT_ID = client_id,
          ACCESS_TOKEN = access_token,
          HEADERS = [(''Content-Type'', Some ''application/json''),
                     (''client-id'', client_id),
                     (''access-token'', access_token)],
          mcp_ctx = None,
          dhan_tools =
            [''place_order'', ''place_super_order'', ''place_forever_order'', ''get_order_book'',
             ''get_market_quote'', ''get_option_chain'', ''get_historical_intraday'',
             ''get_historical_daily'', ''get_fund_balance'', ''get_account_details'',
             ''get_holdings'', ''get_positions'', ''get_portfolio_summary'',
             ''calculate_margin'', ''get_margin_benefits'', ''place_after_market_order'',
             ''get_after_market_eligibility'']\<rparr>)"

text \<open>\<open>params or {}\<close>: \<open>None\<close> and the empty dictionary are both false.\<close>

definition params_or_empty :: "pydict option \<Rightarrow> pydict" where
  "params_or_empty params = (case params of None \<Rightarrow> [] | Some p \<Rightarrow> if p = [] then [] else p)"

definition call_api ::
  "dhan_globals \<Rightarrow> network \<Rightarrow> Context \<Rightarrow> string \<Rightarrow> string \<Rightarrow> pydict option \<Rightarrow> pyval option
     \<Rightarrow> (pyval, dhan_globals) outcome" where
  "call_api g net ctx method path params json_body =
     (let url = dhan_BASE_URL g @ path
      in case serialize (dhan_json g) (params_or_empty params) of
           Inl e \<Rightarrow> raised e [] g
         | Inr ps \<Rightarrow>
             (let req = \<lparr>req_method = method, req_url = url, req_headers = Some (HEADERS g),
                         req_params = Some ps, req_json = json_body\<rparr>
              in case net req of
                   Inl e \<Rightarrow> raised e [req] g
                 | Inr resp \<Rightarrow>
                     (case raise_for_status resp of
                        Inl e \<Rightarrow> raised e [req] g
                      | Inr u \<Rightarrow>
                          (case resp_json resp of
                             Inl e \<Rightarrow> raised e [req] g
                           | Inr body \<Rightarrow> returned body [req] g))))"

text \<open>
  The expression \<open>mcp.ctx\<close>, which every tool evaluates as the first argument of its call
  of \<open>call_api\<close>: it raises \<open>AttributeError\<close> when \<open>mcp\<close> has no attribute \<open>ctx\<close>.
\<close>

definition getattr_ctx :: "dhan_globals \<Rightarrow> pyerror + Context" where
  "getattr_ctx g = (case mcp_ctx g of None \<Rightarrow> Inl AttributeError | Some ctx \<Rightarrow> Inr ctx)"

text \<open>\<open>body.update(kwargs)\<close>: the entries of \<open>kwargs\<close> are stored one after the other.\<close>

fun dict_update :: "pydict \<Rightarrow> pydict \<Rightarrow> pydict" where
  "dict_update d [] = d"
| "dict_update d ((k, v) # kvs) = dict_update (setitem d k v) kvs"

definition place_order ::
  "dhan_globals \<Rightarrow> network \<Rightarrow> string \<Rightarrow> pyfloat \<Rightarrow> pyfloat \<Rightarrow> string \<Rightarrow> string \<Rightarrow> string
     \<Rightarrow> pydict \<Rightarrow> (pyval, dhan_globals) outcome" where
  "place_order g net symbol qty price side product_type order_type kwargs =
     (let body = [(''symbol'', PStr symbol), (''quantity'', PFloat qty), (''price'', PFloat price),
                  (''side'', PStr side), (''productType'', PStr product_type),
                  (''orderType'', PStr order_type)];
          body = dict_update body kwargs
      in (case getattr_ctx g of
            Inl e \<Rightarrow> raised e [] g
          | Inr ctx \<Rightarrow>
              call_api g net ctx ''POST'' ''/orders'' None (Some (PDict body))))"

definition place_super_order ::
  "dhan_globals \<Rightarrow> network \<Rightarrow> string \<Rightarrow> pyfloat \<Rightarrow> pyfloat \<Rightarrow> pyval list \<Rightarrow> pyfloat
     \<Rightarrow> (pyval, dhan_globals) outcome" where
  "place_super_order g net symbol qty entry_price targets stop_loss =
     (let body = [(''symbol'', PStr symbol), (''quantity'', PFloat qty),
                  (''entryPrice'', PFloat entry_price), (''targets'', PList targets),
                  (''stopLoss'', PFloat stop_loss)]
      in (case getattr_ctx g of
            Inl e \<Rightarrow> raised e [] g
          | Inr ctx \<Rightarrow>
              call_api g net ctx ''POST'' ''/super-order'' None (Some (PDict body))))"

definition place_forever_order ::
  "dhan_globals \<Rightarrow> network \<Rightarrow> string \<Rightarrow> pyfloat \<Rightarrow> pyfloat \<Rightarrow> string \<Rightarrow> bool option
     \<Rightarrow> (pyval, dhan_globals) outcome" where
  "place_forever_order g net symbol quantity price side oco =
     (let body = [(''symbol'', PStr symbol), (''quantity'', PFloat quantity),
                  (''price'', PFloat price), (''side'', PStr side),
                  (''oco'', PBool (default_arg False oco))]
      in (case getattr_ctx g of
            Inl e \<Rightarrow> raised e [] g
          | Inr ctx \<Rightarrow>
              call_api g net ctx ''POST'' ''/forever-order'' None (Some (PDict body))))"

definition get_order_book :: "dhan_globals \<Rightarrow> network \<Rightarrow> (pyval, dhan_globals) outcome" where
  "get_order_book g net = (case getattr_ctx g of
                             Inl e \<Rightarrow> raised e [] g
                           | Inr ctx \<Rightarrow>
                               call_api g net ctx ''GET'' ''/orders'' None None)"

definition get_market_quote ::
  "dhan_globals \<Rightarrow> network \<Rightarrow> string list \<Rightarrow> (pyval, dhan_globals) outcome" where
  "get_market_quote g net symbols =
     (case getattr_ctx g of
        Inl e \<Rightarrow> raised e [] g
      | Inr ctx \<Rightarrow>
          call_api g net ctx ''GET'' ''/market-quote'' (Some [(''symbols'', str_list symbols)]) None)"

definition get_option_chain ::
  "dhan_globals \<Rightarrow> network \<Rightarrow> string \<Rightarrow> (pyval, dhan_globals) outcome" where
  "get_option_chain g net underlying =
     (case getattr_ctx g of
        Inl e \<Rightarrow> raised e [] g
      | Inr ctx \<Rightarrow>
          call_api g net ctx ''GET'' ''/option-chain'' (Some [(''underlying'', PStr underlying)]) None)"

definition get_historical_intraday ::
  "dhan_globals \<Rightarrow> network \<Rightarrow> string \<Rightarrow> int \<Rightarrow> int \<Rightarrow> string option
     \<Rightarrow> (pyval, dhan_globals) outcome" where
  "get_historical_intraday g net instrument from_ts to_ts timeframe =
     (let params = [(''instrument'', PStr instrument), (''from'', PInt from_ts),
                    (''to'', PInt to_ts), (''timeframe'', PStr (default_arg ''1m'' timeframe))]
      in (case getattr_ctx g of
            Inl e \<Rightarrow> raised e [] g
          | Inr ctx \<Rightarrow>
              call_api g net ctx ''POST'' ''/charts/intraday'' None (Some (PDict params))))"

definition get_historical_daily ::
  "dhan_globals \<Rightarrow> network \<Rightarrow> string \<Rightarrow> string \<Rightarrow> string \<Rightarrow> (pyval, dhan_globals) outcome" where
  "get_historical_daily g net instrument from_date to_date =
     (let params = [(''instrument'', PStr instrument), (''from'', PStr from_date),
                    (''to'', PStr to_date)]
      in (case getattr_ctx g of
            Inl e \<Rightarrow> raised e [] g
          | Inr ctx \<Rightarrow>
              call_api g net ctx ''POST'' ''/charts/daily'' None (Some (PDict params))))"

definition get_fund_balance :: "dhan_globals \<Rightarrow> network \<Rightarrow> (pyval, dhan_globals) outcome" where
  "get_fund_balance g net = (case getattr_ctx g of
                               Inl e \<Rightarrow> raised e [] g
                             | Inr ctx \<Rightarrow>
                                 call_api g net ctx ''GET'' ''/user/funds'' None None)"

definition get_account_details :: "dhan_globals \<Rightarrow> network \<Rightarrow> (pyval, dhan_globals) outcome" where
  "get_account_details g net = (case getattr_ctx g of
                                  Inl e \<Rightarrow> raised e [] g
                                | Inr ctx \<Rightarrow>
                                    call_api g net ctx ''GET'' ''/user/profile'' None None)"

definition get_holdings :: "dhan_globals \<Rightarrow> network \<Rightarrow> (pyval, dhan_globals) outcome" where
  "get_holdings g net = (case getattr_ctx g of
                           Inl e \<Rightarrow> raised e [] g
                         | Inr ctx \<Rightarrow>
                             call_api g net ctx ''GET'' ''/holdings'' None None)"

definition get_positions :: "dhan_globals \<Rightarrow> network \<Rightarrow> (pyval, dhan_globals) outcome" where
  "get_positions g net = (case getattr_ctx g of
                            Inl e \<Rightarrow> raised e [] g
                          | Inr ctx \<Rightarrow>
                              call_api g net ctx ''GET'' ''/positions'' None None)"

definition get_portfolio_summary :: "dhan_globals \<Rightarrow> network \<Rightarrow> (pyval, dhan_globals) outcome" where
  "get_portfolio_summary g net =
     (case getattr_ctx g of
        Inl e \<Rightarrow> raised e [] g
      | Inr ctx \<Rightarrow>
          call_api g net ctx ''GET'' ''/portfolio/summary'' None None)"

definition calculate_margin ::
  "dhan_globals \<Rightarrow> network \<Rightarrow> string \<Rightarrow> pyfloat \<Rightarrow> pyfloat \<Rightarrow> string option \<Rightarrow> string option
     \<Rightarrow> (pyval, dhan_globals) outcome" where
  "calculate_margin g net symbol qty price order_type product_type =
     (let body = [(''symbol'', PStr symbol), (''quantity'', PFloat qty), (''price'', PFloat price),
                  (''orderType'', PStr (default_arg ''LIMIT'' order_type)),
                  (''productType'', PStr (default_arg ''INTRADAY'' product_type))]
      in (case getattr_ctx g of
            Inl e \<Rightarrow> raised e [] g
          | Inr ctx \<Rightarrow>
              call_api g net ctx ''POST'' ''/margin/calculate'' None (Some (PDict body))))"

definition get_margin_benefits ::
  "dhan_globals \<Rightarrow> network \<Rightarrow> string list \<Rightarrow> (pyval, dhan_globals) outcome" where
  "get_margin_benefits g net symbols =
     (case getattr_ctx g of
        Inl e \<Rightarrow> raised e [] g
      | Inr ctx \<Rightarrow>
          call_api g net ctx ''GET'' ''/margin/benefits'' (Some [(''symbols'', str_list symbols)]) None)"

definition place_after_market_order ::
  "dhan_globals \<Rightarrow> network \<Rightarrow> string \<Rightarrow> pyfloat \<Rightarrow> pyfloat \<Rightarrow> string \<Rightarrow> string option
     \<Rightarrow> (pyval, dhan_globals) outcome" where
  "place_after_market_order g net symbol qty price side product_type =
     (let body = [(''symbol'', PStr symbol), (''quantity'', PFloat qty), (''price'', PFloat price),
                  (''side'', PStr side),
                  (''productType'', PStr (default_arg ''DELIVERY'' product_type)),
                  (''afterMarket'', PBool True)]
      in (case getattr_ctx g of
            Inl e \<Rightarrow> raised e [] g
          | Inr ctx \<Rightarrow>
              call_api g net ctx ''POST'' ''/orders'' None (Some (PDict body))))"

definition get_after_market_eligibility ::
  "dhan_globals \<Rightarrow> network \<Rightarrow> string list \<Rightarrow> (pyval, dhan_globals) outcome" where
  "get_after_market_eligibility g net symbols =
     (case getattr_ctx g of
        Inl e \<Rightarrow> raised e [] g
      | Inr ctx \<Rightarrow>
          call_api g net ctx ''GET'' ''/market/after-hours-eligibility'' (Some [(''symbols'', str_list symbols)]) None)"

text \<open>
  An invocation of one of the seventeen registered tools, with its arguments, typed by the
  annotations of the signature; \<open>targets\<close> is a list of any values and \<open>kwargs\<close> a
  dictionary of any values.
\<close>

datatype dhan_call =
    Call_place_order string pyfloat pyfloat string string string pydict
  | Call_place_super_order string pyfloat pyfloat "pyval list" pyfloat
  | Call_place_forever_order string pyfloat pyfloat string "bool option"
  | Call_get_order_book
  | Call_get_market_quote "string list"
  | Call_get_option_chain string
  | Call_get_historical_intraday string int int "string option"
  | Call_get_historical_daily string string string
  | Call_get_fund_balance
  | Call_get_account_details
  | Call_get_holdings
  | Call_get_positions
  | Call_get_portfolio_summary
  | Call_calculate_margin string pyfloat pyfloat "string option" "string option"
  | Call_get_margin_benefits "string list"
  | Call_place_after_market_order string pyfloat pyfloat string "string option"
  | Call_get_after_market_eligibility "string list"

fun dhan_invoke ::
  "dhan_globals \<Rightarrow> network \<Rightarrow> dhan_call \<Rightarrow> (pyval, dhan_globals) outcome" where
  "dhan_invoke g net (Call_place_order symbol qty price side product_type order_type kwargs) =
     place_order g net symbol qty price side product_type order_type kwargs"
| "dhan_invoke g net (Call_place_super_order symbol qty entry_price targets stop_loss) =
     place_super_order g net symbol qty entry_price targets stop_loss"
| "dhan_invoke g net (Call_place_forever_order symbol quantity price side oco) =
     place_forever_order g net symbol quantity price side oco"
| "dhan_invoke g net Call_get_order_book = get_order_book g net"
| "dhan_invoke g net (Call_get_market_quote symbols) = get_market_quote g net symbols"
| "dhan_invoke g net (Call_get_option_chain underlying) = get_option_chain g net underlying"
| "dhan_invoke g net (Call_get_historical_intraday instrument from_ts to_ts timeframe) =
     get_historical_intraday g net instrument from_ts to_ts timeframe"
| "dhan_invoke g net (Call_get_historical_daily instrument from_date to_date) =
     get_historical_daily g net instrument from_date to_date"
| "dhan_invoke g net Call_get_fund_balance = get_fund_balance g net"
| "dhan_invoke g net Call_get_account_details = get_account_details g net"
| "dhan_invoke g net Call_get_holdings = get_holdings g net"
| "dhan_invoke g net Call_get_positions = get_positions g net"
| "dhan_invoke g net Call_get_portfolio_summary = get_portfolio_summary g net"
| "dhan_invoke g net (Call_calculate_margin symbol qty price order_type product_type) =
     calculate_margin g net symbol qty price order_type product_type"
| "dhan_invoke g net (Call_get_margin_benefits symbols) = get_margin_benefits g net symbols"
| "dhan_invoke g net (Call_place_after_market_order symbol qty price side product_type) =
     place_after_market_order g net symbol qty price side product_type"
| "dhan_invoke g net (Call_get_after_market_eligibility symbols) =
     get_after_market_eligibility g net symbols"

text \<open>
  The tools that place an order, and the tools that only fetch data: every other one.
\<close>

fun order_placement :: "dhan_call \<Rightarrow> bool" where
  "order_placement (Call_place_order symbol qty price side product_type order_type kwargs) = True"
| "order_placement (Call_place_super_order symbol qty entry_price targets stop_loss) = True"
| "order_placement (Call_place_forever_order symbol quantity price side oco) = True"
| "order_placement (Call_place_after_market_order symbol qty price side product_type) = True"
| "order_placement c = False"

text \<open>The three tools that fetch or compute data through a POST request.\<close>

fun posts_a_query :: "dhan_call \<Rightarrow> bool" where
  "posts_a_query (Call_get_historical_intraday instrument from_ts to_ts timeframe) = True"
| "posts_a_query (Call_get_historical_daily instrument from_date to_date) = True"
| "posts_a_query (Call_calculate_margin symbol qty price order_type product_type) = True"
| "posts_a_query c = False"

section \<open>Successive invocations\<close>

text \<open>
  The hosting framework invokes tools one after the other, each against the network as it
  answers at that moment and the module's globals as the invocation before left them.
\<close>

fun session ::
  "('g \<Rightarrow> network \<Rightarrow> 'c \<Rightarrow> ('a, 'g) outcome) \<Rightarrow> 'g \<Rightarrow> (network \<times> 'c) list
     \<Rightarrow> ('a, 'g) outcome list" where
  "session invoke g [] = []"
| "session invoke g ((net, c) # cs) =
     invoke g net c # session invoke (globals_after (invoke g net c)) cs"

section \<open>Arguments of an invocation\<close>

text \<open>
  The arguments of an invocation as the tool's signature binds them, by parameter name,
  with the default value for a parameter that was left out.
\<close>

fun binance_arguments :: "binance_call \<Rightarrow> pydict" where
  "binance_arguments (Call_ExchangeInfoOfASymbol symbol) = [(''symbol'', PStr symbol)]"
| "binance_arguments Call_ExchangeInfoOfAllSymbols = []"
| "binance_arguments (Call_getTradeData symbol interval startTime endTime limit) =
     [(''symbol'', PStr symbol), (''interval'', PStr interval),
      (''startTime'', opt_int startTime), (''endTime'', opt_int endTime),
      (''limit'', opt_int limit)]"
| "binance_arguments (Call_AggTrades symbol limit) =
     [(''symbol'', PStr symbol), (''limit'', PInt (default_arg 20 limit))]"
| "binance_arguments (Call_TradeHistory symbol limit) =
     [(''symbol'', PStr symbol), (''limit'', PInt (default_arg 20 limit))]"
| "binance_arguments (Call_Depth symbol) = [(''symbol'', PStr symbol)]"
| "binance_arguments (Call_CurrentAvgPrice symbol) = [(''symbol'', PStr symbol)]"
| "binance_arguments (Call_PriceTickerIn24Hr symbol) = [(''symbol'', PStr symbol)]"
| "binance_arguments (Call_TradingDayTicker symbols) = [(''symbols'', str_list symbols)]"
| "binance_arguments (Call_SymbolPriceTicker symbol symbols) =
     [(''symbol'', opt_str symbol), (''symbols'', opt_str_list symbols)]"
| "binance_arguments (Call_SymbolOrderBookTicker symbol symbols) =
     [(''symbol'', opt_str symbol), (''symbols'', opt_str_list symbols)]"
| "binance_arguments (Call_RollingWindowTicker symbol symbols windowSize type) =
     [(''symbol'', opt_str symbol), (''symbols'', opt_str_list symbols),
      (''windowSize'', opt_str windowSize), (''type'', opt_str type)]"

fun dhan_arguments :: "dhan_call \<Rightarrow> pydict" where
  "dhan_arguments (Call_place_order symbol qty price side product_type order_type kwargs) =
     [(''symbol'', PStr symbol), (''qty'', PFloat qty), (''price'', PFloat price),
      (''side'', PStr side), (''product_type'', PStr product_type),
      (''order_type'', PStr order_type), (''kwargs'', PDict kwargs)]"
| "dhan_arguments (Call_place_super_order symbol qty entry_price targets stop_loss) =
     [(''symbol'', PStr symbol), (''qty'', PFloat qty), (''entry_price'', PFloat entry_price),
      (''targets'', PList targets), (''stop_loss'', PFloat stop_loss)]"
| "dhan_arguments (Call_place_forever_order symbol quantity price side oco) =
     [(''symbol'', PStr symbol), (''quantity'', PFloat quantity), (''price'', PFloat price),
      (''side'', PStr side), (''oco'', PBool (default_arg False oco))]"
| "dhan_arguments Call_get_order_book = []"
| "dhan_arguments (Call_get_market_quote symbols) = [(''symbols'', str_list symbols)]"
| "dhan_arguments (Call_get_option_chain underlying) = [(''underlying'', PStr underlying)]"
| "dhan_arguments (Call_get_historical_intraday instrument from_ts to_ts timeframe) =
     [(''instrument'', PStr instrument), (''from_ts'', PInt from_ts), (''to_ts'', PInt to_ts),
      (''timeframe'', PStr (default_arg ''1m'' timeframe))]"
| "dhan_arguments (Call_get_historical_daily instrument from_date to_date) =
     [(''instrument'', PStr instrument), (''from_date'', PStr from_date),
      (''to_date'', PStr to_date)]"
| "dhan_arguments Call_get_fund_balance = []"
| "dhan_arguments Call_get_account_details = []"
| "dhan_arguments Call_get_holdings = []"
| "dhan_arguments Call_get_positions = []"
| "dhan_arguments Call_get_portfolio_summary = []"
| "dhan_arguments (Call_calculate_margin symbol qty price order_type product_type) =
     [(''symbol'', PStr symbol), (''qty'', PFloat qty), (''price'', PFloat price),
      (''order_type'', PStr (default_arg ''LIMIT'' order_type)),
      (''product_type'', PStr (default_arg ''INTRADAY'' product_type))]"
| "dhan_arguments (Call_get_margin_benefits symbols) = [(''symbols'', str_list symbols)]"
| "dhan_arguments (Call_place_after_market_order symbol qty price side product_type) =
     [(''symbol'', PStr symbol), (''qty'', PFloat qty), (''price'', PFloat price),
      (''side'', PStr side), (''product_type'', PStr (default_arg ''DELIVERY'' product_type))]"
| "dhan_arguments (Call_get_after_market_eligibility symbols) = [(''symbols'', str_list symbols)]"

section \<open>A concrete environment\<close>

text \<open>
  An interpreter with the default limit of 4300 digits and room for 1000 nested
  containers; an environment with both credentials set; a server that answers every
  request with status 200 and an empty body, on which \<open>Response.json\<close> raises, and one that
  answers with status 200 and the JSON body \<open>{}\<close>.
\<close>

definition example_json :: dumps where
  "example_json = json_dumps 4300 1000"

text \<open>An integer of 4301 digits.\<close>

definition big_int :: int where
  "big_int = 10 ^ 4300"

definition example_getenv :: "string \<Rightarrow> string option" where
  "example_getenv name =
     (if name = ''DHAN_CLIENT_ID'' then Some ''1000000001''
      else if name = ''DHAN_ACCESS_TOKEN'' then Some ''secret''
      else None)"

definition empty_response :: response where
  "empty_response = \<lparr>status_code = 200, resp_text = [], resp_json = Inl JSONDecodeError\<rparr>"

definition empty_body_network :: network where
  "empty_body_network req = Inr empty_response"

definition json_response :: response where
  "json_response = \<lparr>status_code = 200, resp_text = ''{}'', resp_json = Inr (PDict [])\<rparr>"

definition json_network :: network where
  "json_network req = Inr json_response"

section \<open>Properties of the serialization helpers\<close>

lemma serialize_comp_loop: "serialize_comp dumps items d = serialize_params_loop dumps items d"
  by (induction dumps items d rule: serialize_comp.induct) (auto split: sum.splits)

lemma serialize_eq: "serialize dumps params = serialize_params dumps params"
  by (simp add: serialize_def serialize_params_def serialize_comp_loop)

lemma setitem_keys: "fst ` set (setitem d k v) = insert k (fst ` set d)"
  by (simp add: setitem_def dom_update)

lemma setitem_distinct: "distinct (map fst d) \<Longrightarrow> distinct (map fst (setitem d k v))"
  by (simp add: setitem_def distinct_update)

lemma setitem_map_of: "map_of (setitem d k v) = (map_of d)(k \<mapsto> v)"
  by (simp add: setitem_def update_conv')

lemma setitem_new: "k \<notin> fst ` set d \<Longrightarrow> setitem d k v = d @ [(k, v)]"
  unfolding setitem_def by (induction d) auto

lemma setitem_values: "(k', v') \<in> set (setitem d k v) \<Longrightarrow> (k', v') \<in> set d \<or> v' = v"
  unfolding setitem_def by (induction d) (auto split: if_splits)

lemma is_None_iff: "is_None v \<longleftrightarrow> v = PNone"
  by (cases v) simp_all

text \<open>One step of the loop, by cases on the value.\<close>

lemma loop_step_cases:
  assumes "serialize_params_loop dumps ((k, v) # items) out = Inr res"
  obtains (none) "v = PNone" "serialize_params_loop dumps items out = Inr res"
  | (list) s where "v \<noteq> PNone" "isinstance_list v" "dumps v = Inr s"
      "serialize_params_loop dumps items (setitem out k (PStr s)) = Inr res"
  | (plain) "v \<noteq> PNone" "\<not> isinstance_list v"
      "serialize_params_loop dumps items (setitem out k v) = Inr res"
proof (cases "v = PNone")
  case True
  with assms show ?thesis using none by simp
next
  case nn: False
  show ?thesis
  proof (cases "isinstance_list v")
    case True
    show ?thesis
    proof (cases "dumps v")
      case (Inl e)
      with assms nn True show ?thesis by (simp add: is_None_iff)
    next
      case (Inr s)
      with assms nn True show ?thesis using list[of s] by (simp add: is_None_iff)
    qed
  next
    case False
    with assms nn show ?thesis using plain by (simp add: is_None_iff)
  qed
qed

lemma loop_succeeds:
  "\<forall>(k, v) \<in> set items. isinstance_list v \<longrightarrow> (\<exists>s. dumps v = Inr s) \<Longrightarrow>
   \<exists>res. serialize_params_loop dumps items out = Inr res"
proof (induction items arbitrary: out)
  case Nil
  then show ?case by simp
next
  case (Cons kv items)
  obtain k v where kv: "kv = (k, v)" by (cases kv)
  from Cons.prems have rest: "\<forall>(k, v) \<in> set items. isinstance_list v \<longrightarrow> (\<exists>s. dumps v = Inr s)"
    by simp
  show ?case
  proof (cases "isinstance_list v")
    case True
    with Cons.prems kv obtain s where s: "dumps v = Inr s" by auto
    from True have "\<not> is_None v" by (cases v) simp_all
    with True s kv Cons.IH[OF rest, of "setitem out k (PStr s)"] show ?thesis by simp
  next
    case False
    with kv Cons.IH[OF rest, of out] Cons.IH[OF rest, of "setitem out k v"] show ?thesis by simp
  qed
qed

lemma loop_keys:
  "serialize_params_loop dumps items out = Inr res \<Longrightarrow>
   fst ` set res = fst ` set out \<union> {k. \<exists>v. (k, v) \<in> set items \<and> v \<noteq> PNone}"
proof (induction items arbitrary: out)
  case Nil
  then show ?case by simp
next
  case (Cons kv items)
  obtain k v where kv: "kv = (k, v)" by (cases kv)
  from Cons.prems kv have step: "serialize_params_loop dumps ((k, v) # items) out = Inr res" by simp
  from step show ?case
  proof (cases rule: loop_step_cases)
    case none
    with Cons.IH[OF none(2)] kv show ?thesis by auto
  next
    case (list s)
    with Cons.IH[OF list(4)] kv show ?thesis by (auto simp: setitem_keys)
  next
    case plain
    with Cons.IH[OF plain(3)] kv show ?thesis by (auto simp: setitem_keys)
  qed
qed

lemma loop_distinct:
  "serialize_params_loop dumps items out = Inr res \<Longrightarrow> distinct (map fst out) \<Longrightarrow> distinct (map fst res)"
proof (induction items arbitrary: out)
  case Nil
  then show ?case by simp
next
  case (Cons kv items)
  obtain k v where kv: "kv = (k, v)" by (cases kv)
  from Cons.prems kv have step: "serialize_params_loop dumps ((k, v) # items) out = Inr res" by simp
  from step show ?case
  proof (cases rule: loop_step_cases)
    case none
    with Cons.IH[OF none(2)] Cons.prems show ?thesis by simp
  next
    case (list s)
    with Cons.IH[OF list(4)] Cons.prems show ?thesis by (simp add: setitem_distinct)
  next
    case plain
    with Cons.IH[OF plain(3)] Cons.prems show ?thesis by (simp add: setitem_distinct)
  qed
qed

lemma loop_keeps:
  "serialize_params_loop dumps items out = Inr res \<Longrightarrow> k \<notin> fst ` set items \<Longrightarrow> map_of res k = map_of out k"
proof (induction items arbitrary: out)
  case Nil
  then show ?case by simp
next
  case (Cons kv items)
  obtain k' v where kv: "kv = (k', v)" by (cases kv)
  from Cons.prems kv have step: "serialize_params_loop dumps ((k', v) # items) out = Inr res"
    and k: "k \<noteq> k'" "k \<notin> fst ` set items" by auto
  from step show ?case
  proof (cases rule: loop_step_cases)
    case none
    with Cons.IH[OF none(2) k(2)] show ?thesis by simp
  next
    case (list s)
    with Cons.IH[OF list(4) k(2)] k(1) show ?thesis by (simp add: setitem_map_of)
  next
    case plain
    with Cons.IH[OF plain(3) k(2)] k(1) show ?thesis by (simp add: setitem_map_of)
  qed
qed

lemma loop_plain:
  "serialize_params_loop dumps items out = Inr res \<Longrightarrow> distinct (map fst items) \<Longrightarrow>
   (k, v) \<in> set items \<Longrightarrow> v \<noteq> PNone \<Longrightarrow> \<not> isinstance_list v \<Longrightarrow> map_of res k = Some v"
proof (induction items arbitrary: out)
  case Nil
  then show ?case by simp
next
  case (Cons kv items)
  obtain k' v' where kv: "kv = (k', v')" by (cases kv)
  from Cons.prems kv have step: "serialize_params_loop dumps ((k', v') # items) out = Inr res"
    and d: "distinct (map fst items)" "k' \<notin> fst ` set items" by auto
  show ?case
  proof (cases "(k, v) = (k', v')")
    case True
    with step Cons.prems(4,5) have "serialize_params_loop dumps items (setitem out k v) = Inr res"
      by (simp add: is_None_iff)
    from loop_keeps[OF this] d(2) True show ?thesis by (simp add: setitem_map_of)
  next
    case False
    with Cons.prems(3) kv have mem: "(k, v) \<in> set items" by auto
    from step show ?thesis
    proof (cases rule: loop_step_cases)
      case none
      from Cons.IH[OF none(2) d(1) mem Cons.prems(4,5)] show ?thesis .
    next
      case (list s)
      from Cons.IH[OF list(4) d(1) mem Cons.prems(4,5)] show ?thesis .
    next
      case plain
      from Cons.IH[OF plain(3) d(1) mem Cons.prems(4,5)] show ?thesis .
    qed
  qed
qed

lemma loop_list:
  "serialize_params_loop dumps items out = Inr res \<Longrightarrow> distinct (map fst items) \<Longrightarrow>
   (k, v) \<in> set items \<Longrightarrow> isinstance_list v \<Longrightarrow>
   \<exists>s. dumps v = Inr s \<and> map_of res k = Some (PStr s)"
proof (induction items arbitrary: out)
  case Nil
  then show ?case by simp
next
  case (Cons kv items)
  obtain k' v' where kv: "kv = (k', v')" by (cases kv)
  from Cons.prems kv have step: "serialize_params_loop dumps ((k', v') # items) out = Inr res"
    and d: "distinct (map fst items)" "k' \<notin> fst ` set items" by auto
  show ?case
  proof (cases "(k, v) = (k', v')")
    case True
    from step show ?thesis
    proof (cases rule: loop_step_cases)
      case none
      with True Cons.prems(4) show ?thesis by simp
    next
      case (list s)
      from loop_keeps[OF list(4) d(2)] list(3) True show ?thesis by (simp add: setitem_map_of)
    next
      case plain
      with True Cons.prems(4) show ?thesis by simp
    qed
  next
    case False
    with Cons.prems(3) kv have mem: "(k, v) \<in> set items" by auto
    from step show ?thesis
    proof (cases rule: loop_step_cases)
      case none
      from Cons.IH[OF none(2) d(1) mem Cons.prems(4)] show ?thesis .
    next
      case (list s)
      from Cons.IH[OF list(4) d(1) mem Cons.prems(4)] show ?thesis .
    next
      case plain
      from Cons.IH[OF plain(3) d(1) mem Cons.prems(4)] show ?thesis .
    qed
  qed
qed

lemma loop_plain_values:
  "serialize_params_loop dumps items out = Inr res \<Longrightarrow>
   (\<And>k v. (k, v) \<in> set out \<Longrightarrow> v \<noteq> PNone \<and> \<not> isinstance_list v) \<Longrightarrow>
   (k, v) \<in> set res \<Longrightarrow> v \<noteq> PNone \<and> \<not> isinstance_list v"
proof (induction items arbitrary: out)
  case Nil
  then show ?case by simp
next
  case (Cons kv items)
  obtain k' v' where kv: "kv = (k', v')" by (cases kv)
  from Cons.prems kv have step: "serialize_params_loop dumps ((k', v') # items) out = Inr res" by simp
  from step show ?case
  proof (cases rule: loop_step_cases)
    case none
    from Cons.IH[OF none(2) Cons.prems(2) Cons.prems(3)] show ?thesis by simp
  next
    case (list s)
    have "\<And>a b. (a, b) \<in> set (setitem out k' (PStr s)) \<Longrightarrow> b \<noteq> PNone \<and> \<not> isinstance_list b"
      using Cons.prems(2) setitem_values by fastforce
    from Cons.IH[OF list(4) this Cons.prems(3)] show ?thesis by simp
  next
    case plain
    have "\<And>a b. (a, b) \<in> set (setitem out k' v') \<Longrightarrow> b \<noteq> PNone \<and> \<not> isinstance_list b"
      using Cons.prems(2) setitem_values plain(1,2) by blast
    from Cons.IH[OF plain(3) this Cons.prems(3)] show ?thesis by simp
  qed
qed

lemma loop_fixpoint:
  "distinct (map fst items) \<Longrightarrow>
   (\<And>k v. (k, v) \<in> set items \<Longrightarrow> v \<noteq> PNone \<and> \<not> isinstance_list v) \<Longrightarrow>
   fst ` set items \<inter> fst ` set out = {} \<Longrightarrow> serialize_params_loop dumps items out = Inr (out @ items)"
proof (induction items arbitrary: out)
  case Nil
  then show ?case by simp
next
  case (Cons kv items)
  obtain k v where kv: "kv = (k, v)" by (cases kv)
  from Cons.prems(2)[of k v] kv have a: "\<not> is_None v" "\<not> isinstance_list v"
    by (simp_all add: is_None_iff)
  from Cons.prems(3) kv have knew: "k \<notin> fst ` set out" by auto
  from Cons.prems(1) kv have d: "distinct (map fst items)" "k \<notin> fst ` set items" by auto
  have disj: "fst ` set items \<inter> fst ` set (setitem out k v) = {}"
    using Cons.prems(3) d(2) by (auto simp: setitem_keys)
  have rest: "b \<noteq> PNone \<and> \<not> isinstance_list b" if "(a, b) \<in> set items" for a b
  proof -
    from that have "(a, b) \<in> set (kv # items)" by simp
    then show ?thesis by (rule Cons.prems(2))
  qed
  have "serialize_params_loop dumps items (setitem out k v) = Inr (setitem out k v @ items)"
    using Cons.IH[OF d(1) rest disj] .
  with a kv knew show ?case by (simp add: setitem_new)
qed

lemma serialize_params_fixpoint:
  assumes "serialize_params dumps params = Inr out"
  shows "serialize_params dumps out = Inr out"
proof -
  from assms have l: "serialize_params_loop dumps params [] = Inr out" by (simp add: serialize_params_def)
  have d: "distinct (map fst out)" using loop_distinct[OF l] by simp
  have p: "\<And>k v. (k, v) \<in> set out \<Longrightarrow> v \<noteq> PNone \<and> \<not> isinstance_list v"
    using loop_plain_values[OF l] by simp
  show ?thesis using loop_fixpoint[where out = "[]", OF d p] by (simp add: serialize_params_def)
qed


lemma loop_raises:
  "(k, v) \<in> set items \<Longrightarrow> isinstance_list v \<Longrightarrow> dumps v = Inl e \<Longrightarrow>
   \<exists>e'. serialize_params_loop dumps items out = Inl e'"
proof (induction items arbitrary: out)
  case Nil
  then show ?case by simp
next
  case (Cons kv items)
  obtain k' v' where kv: "kv = (k', v')" by (cases kv)
  show ?case
  proof (cases "(k, v) = (k', v')")
    case True
    from Cons.prems(2) have "\<not> is_None v" by (cases v) simp_all
    with True kv Cons.prems(2,3) show ?thesis by simp
  next
    case False
    with Cons.prems(1) kv have mem: "(k, v) \<in> set items" by auto
    note IH = Cons.IH[OF mem Cons.prems(2,3)]
    show ?thesis
    proof (cases "serialize_params_loop dumps ((k', v') # items) out")
      case (Inl e')
      with kv show ?thesis by simp
    next
      case (Inr res)
      then show ?thesis
      proof (cases rule: loop_step_cases)
        case none
        with IH[of out] show ?thesis by simp
      next
        case (list s)
        with IH[of "setitem out k' (PStr s)"] show ?thesis by simp
      next
        case plain
        with IH[of "setitem out k' v'"] show ?thesis by simp
      qed
    qed
  qed
qed

text \<open>A number of more than \<open>k\<close> digits, and what the encoder does with it.\<close>

lemma nat_repr_length: "10 ^ k \<le> n \<Longrightarrow> k < length (nat_repr n)"
proof (induction k arbitrary: n)
  case 0
  show ?case by (subst nat_repr.simps) simp
next
  case (Suc k)
  then have "10 \<le> n" "10 ^ k \<le> n div 10"
    by (auto simp: less_eq_div_iff_mult_less_eq intro: order_trans[of 10 "10 * 10 ^ k"])
  with Suc.IH[of "n div 10"] show ?case by (subst nat_repr.simps) simp
qed

lemma int_repr_limited_too_long:
  assumes "0 < m"
  shows "int_repr_limited m (10 ^ m) = Inl ValueError"
proof -
  have e: "nat \<bar>10 ^ m :: int\<bar> = 10 ^ m" by (simp add: nat_power_eq)
  have "m < length (nat_repr (nat \<bar>10 ^ m :: int\<bar>))"
    unfolding e by (rule nat_repr_length) simp
  with assms show ?thesis unfolding int_repr_limited_def by simp
qed

lemma json_dumps_long_int:
  "0 < m \<Longrightarrow> 0 < d \<Longrightarrow> json_dumps m d (PList [PInt (10 ^ m)]) = Inl ValueError"
  by (simp add: int_repr_limited_too_long)

lemma example_json_big_int: "example_json (PList [PInt big_int]) = Inl ValueError"
  unfolding example_json_def big_int_def by (rule json_dumps_long_int) simp_all

text \<open>The encoder accepts every list of strings, unless the interpreter has no room left.\<close>

lemma dumps_list_strings: "\<exists>ss. dumps_list m d (map PStr xs) = Inr ss"
  by (induction xs) auto

lemma json_dumps_str_list: "0 < d \<Longrightarrow> \<exists>s. json_dumps m d (str_list xs) = Inr s"
  using dumps_list_strings[of m "d - 1" xs] by (auto simp: str_list_def)

lemma example_json_str_list: "\<exists>s. example_json (str_list xs) = Inr s"
  by (simp add: example_json_def json_dumps_str_list)

text \<open>
  C1, as the code has it. A dictionary has each key once. When \<open>json.dumps\<close> returns for
  every list among the values, \<open>serialize_params\<close> and \<open>serialize\<close> return the same
  dictionary; its keys are the keys of \<open>params\<close> whose value is not \<open>None\<close>; under its key,
  a list is replaced by the string \<open>json.dumps\<close> gives for it, and any other value that is
  not \<open>None\<close> is kept as it is. When \<open>json.dumps\<close> raises on a list among the values, both
  helpers raise and return no dictionary.
\<close>

theorem serialize_params_result:
  assumes "distinct (map fst params)"
  shows "((\<forall>(k, v) \<in> set params. isinstance_list v \<longrightarrow> (\<exists>s. dumps v = Inr s)) \<longrightarrow>
      (\<exists>out. serialize_params dumps params = Inr out \<and> serialize dumps params = Inr out
        \<and> distinct (map fst out)
        \<and> fst ` set out = {k. \<exists>v. (k, v) \<in> set params \<and> v \<noteq> PNone}
        \<and> (\<forall>(k, v) \<in> set params. isinstance_list v \<longrightarrow>
              (\<exists>s. dumps v = Inr s \<and> map_of out k = Some (PStr s)))
        \<and> (\<forall>(k, v) \<in> set params. v \<noteq> PNone \<and> \<not> isinstance_list v \<longrightarrow>
              map_of out k = Some v)))
    \<and> ((\<exists>(k, v) \<in> set params. isinstance_list v \<and> (\<exists>e. dumps v = Inl e)) \<longrightarrow>
      (\<exists>e. serialize_params dumps params = Inl e \<and> serialize dumps params = Inl e))"
proof (intro conjI impI)
  assume ok: "\<forall>(k, v) \<in> set params. isinstance_list v \<longrightarrow> (\<exists>s. dumps v = Inr s)"
  from loop_succeeds[OF ok, of "[]"] obtain out
    where l: "serialize_params_loop dumps params [] = Inr out" by blast
  have "serialize_params dumps params = Inr out" "serialize dumps params = Inr out"
    using l by (simp_all add: serialize_eq serialize_params_def)
  moreover have "distinct (map fst out)" using loop_distinct[OF l] by simp
  moreover have "fst ` set out = {k. \<exists>v. (k, v) \<in> set params \<and> v \<noteq> PNone}"
    using loop_keys[OF l] by simp
  moreover have "\<forall>(k, v) \<in> set params. isinstance_list v \<longrightarrow>
      (\<exists>s. dumps v = Inr s \<and> map_of out k = Some (PStr s))"
    using loop_list[OF l assms(1)] by blast
  moreover have "\<forall>(k, v) \<in> set params. v \<noteq> PNone \<and> \<not> isinstance_list v \<longrightarrow> map_of out k = Some v"
    using loop_plain[OF l assms(1)] by blast
  ultimately show "\<exists>out. serialize_params dumps params = Inr out \<and> serialize dumps params = Inr out
        \<and> distinct (map fst out)
        \<and> fst ` set out = {k. \<exists>v. (k, v) \<in> set params \<and> v \<noteq> PNone}
        \<and> (\<forall>(k, v) \<in> set params. isinstance_list v \<longrightarrow>
              (\<exists>s. dumps v = Inr s \<and> map_of out k = Some (PStr s)))
        \<and> (\<forall>(k, v) \<in> set params. v \<noteq> PNone \<and> \<not> isinstance_list v \<longrightarrow>
              map_of out k = Some v)"
    by blast
next
  assume "\<exists>(k, v) \<in> set params. isinstance_list v \<and> (\<exists>e. dumps v = Inl e)"
  then obtain k v e where "(k, v) \<in> set params" "isinstance_list v" "dumps v = Inl e" by blast
  from loop_raises[where dumps = dumps and out = "[]", OF this]
  show "\<exists>e. serialize_params dumps params = Inl e \<and> serialize dumps params = Inl e"
    by (simp add: serialize_eq serialize_params_def)
qed

theorem serialize_params_result_witness:
  "distinct (map fst [(''symbol'', PNone), (''symbols'', PList [PStr ''BTCUSDT'']), (''limit'', PInt 5)])
   \<and> example_json (PList [PStr ''BTCUSDT'']) = Inr ''[\"BTCUSDT\"]''
   \<and> (\<exists>out. serialize_params example_json
                 [(''symbol'', PNone), (''symbols'', PList [PStr ''BTCUSDT'']), (''limit'', PInt 5)]
               = Inr out
         \<and> map_of out ''limit'' = Some (PInt 5) \<and> map_of out ''symbol'' = None
         \<and> map_of out ''symbols'' = Some (PStr ''[\"BTCUSDT\"]''))
   \<and> example_json (PList [PInt big_int]) = Inl ValueError
   \<and> (\<exists>e. serialize_params example_json [(''ids'', PList [PInt big_int])] = Inl e)"
proof -
  let ?p = "[(''symbol'', PNone), (''symbols'', PList [PStr ''BTCUSDT'']), (''limit'', PInt 5)]"
  have enc: "example_json (PList [PStr ''BTCUSDT'']) = Inr ''[\"BTCUSDT\"]''"
    by (simp add: example_json_def encode_basestring_ascii_def escape_char_def)
  have h1: "distinct (map fst ?p)" by simp
  have h2: "\<forall>(k, v) \<in> set ?p. isinstance_list v \<longrightarrow> (\<exists>s. example_json v = Inr s)"
    using enc by simp
  from serialize_params_result[OF h1, of example_json] h2 obtain out where
    o: "serialize_params example_json ?p = Inr out"
       "fst ` set out = {k. \<exists>v. (k, v) \<in> set ?p \<and> v \<noteq> PNone}"
       "\<forall>(k, v) \<in> set ?p. isinstance_list v \<longrightarrow>
              (\<exists>s. example_json v = Inr s \<and> map_of out k = Some (PStr s))"
       "\<forall>(k, v) \<in> set ?p. v \<noteq> PNone \<and> \<not> isinstance_list v \<longrightarrow> map_of out k = Some v"
    by blast
  from o(4) have a: "map_of out ''limit'' = Some (PInt 5)" by simp
  from o(2) have "''symbol'' \<notin> fst ` set out" by simp
  then have b: "map_of out ''symbol'' = None" by (simp add: map_of_eq_None_iff)
  from o(3) enc have c: "map_of out ''symbols'' = Some (PStr ''[\"BTCUSDT\"]'')" by simp
  let ?q = "[(''ids'', PList [PInt big_int])]"
  note big = example_json_big_int
  have g1: "distinct (map fst ?q)" by simp
  have g2: "\<exists>(k, v) \<in> set ?q. isinstance_list v \<and> (\<exists>e. example_json v = Inl e)"
    using big by simp
  from serialize_params_result[OF g1, of example_json] g2
  have d: "\<exists>e. serialize_params example_json ?q = Inl e" by blast
  show ?thesis using h1 enc o(1) a b c big d by blast
qed

text \<open>
  C1 as stated fails: on a list that holds a \<open>bytes\<close> object \<open>json.dumps\<close> raises
  \<open>TypeError\<close>, so both helpers raise and no dictionary is returned.
\<close>

theorem serialize_params_raises:
  "serialize_params example_json [(''symbols'', PList [PBytes ''x''])] = Inl TypeError
   \<and> serialize example_json [(''symbols'', PList [PBytes ''x''])] = Inl TypeError"
  by (simp add: serialize_params_def serialize_def example_json_def)

text \<open>
  C8. Whenever a helper returns a dictionary, that dictionary holds no \<open>None\<close> and no
  list, and the helper applied to it returns it unchanged. A helper does return when
  \<open>json.dumps\<close> returns for every value of \<open>params\<close>, that is, when the values are JSON
  serializable.
\<close>

theorem serialize_idempotent:
  "(\<forall>out. serialize_params dumps params = Inr out \<longrightarrow>
      serialize_params dumps out = Inr out
      \<and> (\<forall>(k, v) \<in> set out. v \<noteq> PNone \<and> \<not> isinstance_list v))
   \<and> (\<forall>out. serialize dumps params = Inr out \<longrightarrow>
      serialize dumps out = Inr out
      \<and> (\<forall>(k, v) \<in> set out. v \<noteq> PNone \<and> \<not> isinstance_list v))
   \<and> ((\<forall>(k, v) \<in> set params. \<exists>s. dumps v = Inr s) \<longrightarrow>
      (\<exists>out. serialize_params dumps params = Inr out \<and> serialize dumps params = Inr out))"
proof -
  have fixp: "serialize_params dumps out = Inr out
      \<and> (\<forall>(k, v) \<in> set out. v \<noteq> PNone \<and> \<not> isinstance_list v)"
    if s: "serialize_params dumps params = Inr out" for out
  proof -
    from s have l: "serialize_params_loop dumps params [] = Inr out"
      by (simp add: serialize_params_def)
    have "\<forall>(k, v) \<in> set out. v \<noteq> PNone \<and> \<not> isinstance_list v"
      using loop_plain_values[OF l] by fastforce
    with serialize_params_fixpoint[OF s] show ?thesis by blast
  qed
  have ret: "\<exists>out. serialize_params dumps params = Inr out"
    if "\<forall>(k, v) \<in> set params. \<exists>s. dumps v = Inr s"
  proof -
    from that have "\<forall>(k, v) \<in> set params. isinstance_list v \<longrightarrow> (\<exists>s. dumps v = Inr s)"
      by blast
    from loop_succeeds[OF this, of "[]"] show ?thesis by (simp add: serialize_params_def)
  qed
  from fixp ret show ?thesis by (simp add: serialize_eq)
qed

theorem serialize_idempotent_witness:
  "example_json PNone = Inr ''null''
   \<and> example_json (PList [PStr ''BTCUSDT'']) = Inr ''[\"BTCUSDT\"]''
   \<and> serialize example_json [(''symbol'', PNone), (''symbols'', PList [PStr ''BTCUSDT''])]
       = Inr [(''symbols'', PStr ''[\"BTCUSDT\"]'')]
   \<and> serialize example_json [(''symbols'', PStr ''[\"BTCUSDT\"]'')]
       = Inr [(''symbols'', PStr ''[\"BTCUSDT\"]'')]"
proof -
  let ?p = "[(''symbol'', PNone), (''symbols'', PList [PStr ''BTCUSDT''])]"
  let ?out = "[(''symbols'', PStr ''[\"BTCUSDT\"]'')]"
  have enc: "example_json PNone = Inr ''null''"
    "example_json (PList [PStr ''BTCUSDT'']) = Inr ''[\"BTCUSDT\"]''"
    by (simp_all add: example_json_def encode_basestring_ascii_def escape_char_def)
  have first: "serialize example_json ?p = Inr ?out"
    by (simp add: serialize_def setitem_def enc)
  from serialize_idempotent[of example_json ?p] first
  have "serialize example_json ?out = Inr ?out" by blast
  with enc first show ?thesis by blast
qed

section \<open>Properties of the tools\<close>

lemma client_get_text_sent:
  "sent (client_get_text g net url params) =
     [\<lparr>req_method = ''GET'', req_url = url, req_headers = None, req_params = params,
       req_json = None\<rparr>]"
  by (simp add: client_get_text_def raised_def returned_def Let_def split: sum.splits)

lemma client_get_text_globals: "globals_after (client_get_text g net url params) = g"
  by (simp add: client_get_text_def raised_def returned_def Let_def split: sum.splits)

lemma client_get_text_result:
  "result (client_get_text g net url params) =
     (case net \<lparr>req_method = ''GET'', req_url = url, req_headers = None, req_params = params,
                req_json = None\<rparr> of
        Inl e \<Rightarrow> Inl e
      | Inr resp \<Rightarrow>
          if is_success resp then Inr (resp_text resp)
          else Inl (HTTPStatusError (status_code resp)))"
  by (simp add: client_get_text_def raised_def returned_def raise_for_status_def Let_def
      split: sum.splits)

lemmas binance_tool_defs =
  ExchangeInfoOfASymbol_def ExchangeInfoOfAllSymbols_def getTradeData_def AggTrades_def
  TradeHistory_def Depth_def CurrentAvgPrice_def PriceTickerIn24Hr_def TradingDayTicker_def
  SymbolPriceTicker_def SymbolOrderBookTicker_def RollingWindowTicker_def

lemma binance_invoke_globals: "globals_after (binance_invoke g net c) = g"
  by (cases c)
     (simp_all add: binance_tool_defs client_get_text_globals raised_def split: sum.splits)

text \<open>The lists among the arguments of a crypto tool are lists of strings.\<close>

lemma binance_arguments_lists:
  "(k, v) \<in> set (binance_arguments c) \<Longrightarrow> isinstance_list v \<Longrightarrow> \<exists>xs. v = str_list xs"
  by (cases c)
     (auto simp: opt_str_def opt_int_def opt_str_list_def str_list_def split: option.splits)

lemma binance_arguments_serialize:
  assumes "\<forall>xs. \<exists>s. dumps (str_list xs) = Inr s"
  shows "\<exists>ps. serialize_params dumps (binance_arguments c) = Inr ps"
proof -
  have "\<forall>(k, v) \<in> set (binance_arguments c). isinstance_list v \<longrightarrow> (\<exists>s. dumps v = Inr s)"
    using assms binance_arguments_lists[of _ _ c] by fastforce
  from loop_succeeds[OF this, of "[]"] show ?thesis by (simp add: serialize_params_def)
qed

text \<open>
  Every tool of the crypto adapter ends in the shared block, on its serialized arguments,
  when \<open>json.dumps\<close> returns for every list of strings.
\<close>

lemma binance_invoke_shape:
  assumes "\<forall>xs. \<exists>s. binance_json g (str_list xs) = Inr s"
  shows "\<exists>url params ps. binance_invoke g net c = client_get_text g net url params
     \<and> serialize_params (binance_json g) (binance_arguments c) = Inr ps
     \<and> params_or_empty params = ps"
proof -
  from binance_arguments_serialize[OF assms, of c]
  obtain ps where ps: "serialize_params (binance_json g) (binance_arguments c) = Inr ps" by blast
  have direct: "serialize_params dumps [(a, PStr x)] = Inr [(a, PStr x)]"
    "serialize_params dumps [(a, PStr x), (b, PInt i)]
       = Inr (if a = b then [(a, PInt i)] else [(a, PStr x), (b, PInt i)])" for a b x i dumps
    by (simp_all add: serialize_params_def setitem_def)
  have I: "\<exists>url params ps. X = client_get_text g net url params
      \<and> S = Inr ps \<and> params_or_empty params = ps"
    if "X = client_get_text g net url params" "S = Inr (params_or_empty params)"
    for X S url params
    using that by blast
  show ?thesis
  proof (cases c)
    case (Call_ExchangeInfoOfASymbol symbol)
    then show ?thesis
      by (intro I) (simp add: ExchangeInfoOfASymbol_def direct params_or_empty_def)+
  next
    case Call_ExchangeInfoOfAllSymbols
    then show ?thesis
      by (intro I)
        (simp add: ExchangeInfoOfAllSymbols_def serialize_params_def params_or_empty_def)+
  next
    case (Call_getTradeData symbol interval startTime endTime limit)
    with ps show ?thesis
      by (intro I) (simp add: getTradeData_def params_or_empty_def)+
  next
    case (Call_AggTrades symbol limit)
    then show ?thesis by (intro I) (simp add: AggTrades_def direct params_or_empty_def)+
  next
    case (Call_TradeHistory symbol limit)
    then show ?thesis by (intro I) (simp add: TradeHistory_def direct params_or_empty_def)+
  next
    case (Call_Depth symbol)
    then show ?thesis by (intro I) (simp add: Depth_def direct params_or_empty_def)+
  next
    case (Call_CurrentAvgPrice symbol)
    then show ?thesis by (intro I) (simp add: CurrentAvgPrice_def direct params_or_empty_def)+
  next
    case (Call_PriceTickerIn24Hr symbol)
    then show ?thesis
      by (intro I) (simp add: PriceTickerIn24Hr_def direct params_or_empty_def)+
  next
    case (Call_TradingDayTicker symbols)
    with ps show ?thesis by (intro I) (simp add: TradingDayTicker_def params_or_empty_def)+
  next
    case (Call_SymbolPriceTicker symbol symbols)
    with ps show ?thesis by (intro I) (simp add: SymbolPriceTicker_def params_or_empty_def)+
  next
    case (Call_SymbolOrderBookTicker symbol symbols)
    with ps show ?thesis
      by (intro I) (simp add: SymbolOrderBookTicker_def params_or_empty_def)+
  next
    case (Call_RollingWindowTicker symbol symbols windowSize type)
    with ps show ?thesis
      by (intro I) (simp add: RollingWindowTicker_def params_or_empty_def)+
  qed
qed

lemma call_api_globals:
  "globals_after (call_api g net ctx method path params json_body) = g"
  by (simp add: call_api_def raised_def returned_def Let_def split: sum.splits)

lemma call_api_sent:
  "serialize (dhan_json g) (params_or_empty params) = Inr ps \<Longrightarrow>
   sent (call_api g net ctx method path params json_body) =
     [\<lparr>req_method = method, req_url = dhan_BASE_URL g @ path, req_headers = Some (HEADERS g),
       req_params = Some ps, req_json = json_body\<rparr>]"
  by (simp add: call_api_def raised_def returned_def Let_def split: sum.splits)

lemma call_api_sent_raised:
  "serialize (dhan_json g) (params_or_empty params) = Inl e \<Longrightarrow>
   sent (call_api g net ctx method path params json_body) = []"
  by (simp add: call_api_def raised_def)

lemma call_api_result:
  "serialize (dhan_json g) (params_or_empty params) = Inr ps \<Longrightarrow>
   result (call_api g net ctx method path params json_body) =
     (case net \<lparr>req_method = method, req_url = dhan_BASE_URL g @ path,
                req_headers = Some (HEADERS g), req_params = Some ps, req_json = json_body\<rparr> of
        Inl e \<Rightarrow> Inl e
      | Inr resp \<Rightarrow>
          if is_success resp then resp_json resp
          else Inl (HTTPStatusError (status_code resp)))"
  by (simp add: call_api_def raised_def returned_def raise_for_status_def Let_def
      split: sum.splits)

lemmas dhan_tool_defs =
  place_order_def place_super_order_def place_forever_order_def get_order_book_def
  get_market_quote_def get_option_chain_def get_historical_intraday_def
  get_historical_daily_def get_fund_balance_def get_account_details_def get_holdings_def
  get_positions_def get_portfolio_summary_def calculate_margin_def get_margin_benefits_def
  place_after_market_order_def get_after_market_eligibility_def

text \<open>
  Every tool of the brokerage adapter evaluates \<open>mcp.ctx\<close> and then makes one call of
  \<open>call_api\<close>: with the method \<open>POST\<close>, a dictionary as JSON body and no parameters, or with
  the method \<open>GET\<close>, no body and the tool's arguments as parameters.
\<close>

lemma dhan_invoke_shape:
  "\<exists>method path params json_body.
     dhan_invoke g net c =
       (case getattr_ctx g of
          Inl e \<Rightarrow> raised e [] g
        | Inr ctx \<Rightarrow> call_api g net ctx method path params json_body)
     \<and> (if order_placement c \<or> posts_a_query c
         then method = ''POST'' \<and> params = None \<and> (\<exists>body. json_body = Some (PDict body))
         else method = ''GET'' \<and> json_body = None \<and> params_or_empty params = dhan_arguments c)"
proof -
  have I: "\<exists>method path params json_body.
      X = (case getattr_ctx g of
             Inl e \<Rightarrow> raised e [] g
           | Inr ctx \<Rightarrow> call_api g net ctx method path params json_body)
      \<and> Q method params json_body"
    if "X = (case getattr_ctx g of
               Inl e \<Rightarrow> raised e [] g
             | Inr ctx \<Rightarrow> call_api g net ctx meth pth params json_body)"
       "Q meth params json_body"
    for X meth pth params json_body Q
    using that by blast
  show ?thesis
    by (cases c; intro I) (simp add: dhan_tool_defs params_or_empty_def Let_def)+
qed

lemma dhan_invoke_globals: "globals_after (dhan_invoke g net c) = g"
proof -
  from dhan_invoke_shape[of g net c] obtain meth pth params json_body where
    "dhan_invoke g net c =
       (case getattr_ctx g of
          Inl e \<Rightarrow> raised e [] g
        | Inr ctx \<Rightarrow> call_api g net ctx meth pth params json_body)" by blast
  then show ?thesis by (simp add: call_api_globals raised_def split: sum.splits)
qed

lemma getattr_ctx_loaded: "getattr_ctx (dhan_module getenv json) = Inl AttributeError"
  by (simp add: getattr_ctx_def dhan_module_def Let_def)

lemma dhan_invoke_loaded:
  "dhan_invoke (dhan_module getenv json) net c = raised AttributeError [] (dhan_module getenv json)"
proof -
  from dhan_invoke_shape[of "dhan_module getenv json" net c]
  show ?thesis by (auto simp: getattr_ctx_loaded)
qed

lemma session_unchanged:
  assumes "\<And>g net c. globals_after (invoke g net c) = g"
  shows "session invoke g calls = map (\<lambda>(net, c). invoke g net c) calls"
proof (induction calls)
  case Nil
  show ?case by simp
next
  case (Cons a calls)
  obtain net c where a: "a = (net, c)" by (cases a)
  with Cons assms show ?case by simp
qed

lemma example_nets:
  "json_network req = Inr json_response" "empty_body_network req = Inr empty_response"
  "is_success json_response" "is_success empty_response"
  "resp_json json_response = Inr (PDict [])" "resp_json empty_response = Inl JSONDecodeError"
  "resp_text json_response = ''{}''"
  by (simp_all add: json_network_def empty_body_network_def json_response_def
      empty_response_def is_success_def)

lemma serialize_empty: "serialize dumps (params_or_empty None) = Inr []"
  by (simp add: serialize_def params_or_empty_def)

text \<open>
  C2, as the code has it. A tool of the crypto adapter makes one HTTP call and there is
  no second attempt; when the call itself raises, that exception reaches the caller; when
  it yields a response, the tool returns the response text if the status is 2xx and raises
  \<open>HTTPStatusError\<close> otherwise. The same holds of \<open>call_api\<close>, through which every tool of
  the brokerage adapter sends its request, once the parameters are serialized: it makes
  one HTTP call, raises \<open>HTTPStatusError\<close> if the status is not 2xx and otherwise gives what
  \<open>Response.json\<close> gives: the parsed body, or the decoding error when the body is not JSON.
\<close>

theorem status_decides_outcome:
  assumes "\<forall>xs. \<exists>s. binance_json g (str_list xs) = Inr s"
    and "serialize (dhan_json g') (params_or_empty params) = Inr ps"
  shows "(\<exists>req. sent (binance_invoke g net c) = [req]
      \<and> result (binance_invoke g net c) =
          (case net req of
             Inl e \<Rightarrow> Inl e
           | Inr resp \<Rightarrow>
               if is_success resp then Inr (resp_text resp)
               else Inl (HTTPStatusError (status_code resp))))
   \<and> (\<exists>req. sent (call_api g' net' ctx method path params json_body) = [req]
      \<and> result (call_api g' net' ctx method path params json_body) =
          (case net' req of
             Inl e \<Rightarrow> Inl e
           | Inr resp \<Rightarrow>
               if is_success resp then resp_json resp
               else Inl (HTTPStatusError (status_code resp))))"
proof
  from binance_invoke_shape[OF assms(1), of net c] obtain url params
    where "binance_invoke g net c = client_get_text g net url params" by blast
  then show "\<exists>req. sent (binance_invoke g net c) = [req]
      \<and> result (binance_invoke g net c) =
          (case net req of
             Inl e \<Rightarrow> Inl e
           | Inr resp \<Rightarrow>
               if is_success resp then Inr (resp_text resp)
               else Inl (HTTPStatusError (status_code resp)))"
    by (simp add: client_get_text_sent client_get_text_result)
next
  show "\<exists>req. sent (call_api g' net' ctx method path params json_body) = [req]
      \<and> result (call_api g' net' ctx method path params json_body) =
          (case net' req of
             Inl e \<Rightarrow> Inl e
           | Inr resp \<Rightarrow>
               if is_success resp then resp_json resp
               else Inl (HTTPStatusError (status_code resp)))"
    by (simp add: call_api_sent[OF assms(2)] call_api_result[OF assms(2)])
qed

theorem status_decides_outcome_witness:
  "example_json (str_list [''BTCUSDT'']) = Inr ''[\"BTCUSDT\"]''
   \<and> serialize example_json (params_or_empty None) = Inr []
   \<and> result (binance_invoke (binance_module example_json) json_network
               (Call_TradingDayTicker [''BTCUSDT''])) = Inr ''{}''
   \<and> result (call_api (dhan_module example_getenv example_json) json_network (Context 0)
               ''GET'' ''/orders'' None None) = Inr (PDict [])"
proof -
  have h1: "\<forall>xs. \<exists>s. binance_json (binance_module example_json) (str_list xs) = Inr s"
    by (simp add: binance_module_def example_json_str_list)
  have h2: "serialize (dhan_json (dhan_module example_getenv example_json)) (params_or_empty None)
      = Inr []"
    by (rule serialize_empty)
  have enc: "example_json (str_list [''BTCUSDT'']) = Inr ''[\"BTCUSDT\"]''"
    by (simp add: example_json_def str_list_def encode_basestring_ascii_def escape_char_def)
  from status_decides_outcome[OF h1 h2, of json_network "Call_TradingDayTicker [''BTCUSDT'']"
      json_network "Context 0" "''GET''" "''/orders''" None]
  have "result (binance_invoke (binance_module example_json) json_network
               (Call_TradingDayTicker [''BTCUSDT''])) = Inr ''{}''"
    "result (call_api (dhan_module example_getenv example_json) json_network (Context 0)
               ''GET'' ''/orders'' None None) = Inr (PDict [])"
    by (auto simp: example_nets)
  with enc serialize_empty[of example_json] show ?thesis by blast
qed

text \<open>
  C2 as stated fails. On a response with status 200 whose body is not JSON, \<open>call_api\<close>
  raises the decoding error of \<open>Response.json\<close>. And in the module as loaded \<open>mcp\<close> has no
  attribute \<open>ctx\<close>, so \<open>get_order_book\<close> raises \<open>AttributeError\<close> and sends nothing, although
  the server would answer with status 200 and a JSON body.
\<close>

theorem success_status_still_raises:
  "is_success empty_response
   \<and> result (call_api (dhan_module example_getenv example_json) empty_body_network (Context 0)
               ''GET'' ''/orders'' None None) = Inl JSONDecodeError
   \<and> result (get_order_book (dhan_module example_getenv example_json) json_network)
       = Inl AttributeError
   \<and> sent (get_order_book (dhan_module example_getenv example_json) json_network) = []"
  by (simp add: example_nets call_api_result[OF serialize_empty] get_order_book_def
      getattr_ctx_loaded raised_def)

text \<open>A request of a brokerage tool, whatever \<open>mcp.ctx\<close> is.\<close>

lemma dhan_invoke_request:
  assumes "req \<in> set (sent (dhan_invoke g net c))"
  shows "req_headers req = Some (HEADERS g)
    \<and> (if order_placement c \<or> posts_a_query c
        then req_method req = ''POST'' \<and> req_params req = Some []
             \<and> (\<exists>body. req_json req = Some (PDict body))
        else req_method req = ''GET'' \<and> req_json req = None
             \<and> (\<exists>ps. req_params req = Some ps
                   \<and> serialize (dhan_json g) (dhan_arguments c) = Inr ps))"
proof -
  from dhan_invoke_shape[of g net c] obtain meth pth params json_body where
    s: "dhan_invoke g net c =
       (case getattr_ctx g of
          Inl e \<Rightarrow> raised e [] g
        | Inr ctx \<Rightarrow> call_api g net ctx meth pth params json_body)"
    and m: "if order_placement c \<or> posts_a_query c
         then meth = ''POST'' \<and> params = None \<and> (\<exists>body. json_body = Some (PDict body))
         else meth = ''GET'' \<and> json_body = None \<and> params_or_empty params = dhan_arguments c"
    by blast
  show ?thesis
  proof (cases "getattr_ctx g")
    case (Inl e)
    with s assms show ?thesis by (simp add: raised_def)
  next
    case (Inr ctx)
    with s have c: "dhan_invoke g net c = call_api g net ctx meth pth params json_body" by simp
    show ?thesis
    proof (cases "serialize (dhan_json g) (params_or_empty params)")
      case (Inl e)
      with c assms show ?thesis by (simp add: call_api_sent_raised)
    next
      case (Inr ps)
      from assms c call_api_sent[OF Inr] have r: "req =
          \<lparr>req_method = meth, req_url = dhan_BASE_URL g @ pth, req_headers = Some (HEADERS g),
            req_params = Some ps, req_json = json_body\<rparr>" by simp
      show ?thesis
      proof (cases "order_placement c \<or> posts_a_query c")
        case True
        with m Inr r show ?thesis by (simp add: serialize_empty)
      next
        case False
        with m Inr r show ?thesis by simp
      qed
    qed
  qed
qed

text \<open>
  C3, as the code has it. Every tool of the crypto adapter issues a GET request with no
  body whose query parameters are its serialized arguments (\<open>json.dumps\<close> returns for
  every list of strings). In the brokerage adapter, a request of one of the four
  order-placement tools, and also of \<open>get_historical_intraday\<close>, \<open>get_historical_daily\<close> and
  \<open>calculate_margin\<close>, is a POST request with a dictionary as JSON body and no query
  parameters; a request of any other tool is a GET request with no body whose query
  parameters are the tool's serialized arguments.
\<close>

theorem request_methods:
  assumes "\<forall>xs. \<exists>s. binance_json g (str_list xs) = Inr s"
  shows "(\<exists>req ps. sent (binance_invoke g net c) = [req]
      \<and> req_method req = ''GET'' \<and> req_json req = None
      \<and> serialize_params (binance_json g) (binance_arguments c) = Inr ps
      \<and> params_or_empty (req_params req) = ps)
   \<and> (\<forall>req \<in> set (sent (dhan_invoke g' net' c')).
        if order_placement c' \<or> posts_a_query c'
        then req_method req = ''POST'' \<and> req_params req = Some []
             \<and> (\<exists>body. req_json req = Some (PDict body))
        else req_method req = ''GET'' \<and> req_json req = None
             \<and> (\<exists>ps. req_params req = Some ps
                   \<and> serialize (dhan_json g') (dhan_arguments c') = Inr ps))"
proof
  from binance_invoke_shape[OF assms, of net c] obtain url params ps
    where "binance_invoke g net c = client_get_text g net url params"
      "serialize_params (binance_json g) (binance_arguments c) = Inr ps"
      "params_or_empty params = ps" by blast
  then show "\<exists>req ps. sent (binance_invoke g net c) = [req]
      \<and> req_method req = ''GET'' \<and> req_json req = None
      \<and> serialize_params (binance_json g) (binance_arguments c) = Inr ps
      \<and> params_or_empty (req_params req) = ps"
    by (simp add: client_get_text_sent)
next
  show "\<forall>req \<in> set (sent (dhan_invoke g' net' c')).
        if order_placement c' \<or> posts_a_query c'
        then req_method req = ''POST'' \<and> req_params req = Some []
             \<and> (\<exists>body. req_json req = Some (PDict body))
        else req_method req = ''GET'' \<and> req_json req = None
             \<and> (\<exists>ps. req_params req = Some ps
                   \<and> serialize (dhan_json g') (dhan_arguments c') = Inr ps)"
    using dhan_invoke_request[of _ g' net' c'] by blast
qed

text \<open>
  A request of \<open>get_market_quote\<close> and one of \<open>get_historical_daily\<close>, in a module whose
  \<open>mcp\<close> has an attribute \<open>ctx\<close>.
\<close>

lemma example_requests:
  "sent (dhan_invoke ((dhan_module example_getenv example_json)\<lparr>mcp_ctx := Some (Context 0)\<rparr>)
           json_network (Call_get_market_quote [''TCS'']))
     = [\<lparr>req_method = ''GET'',
         req_url = ''https://api.dhan.co/v2/market-quote'',
         req_headers = Some [(''Content-Type'', Some ''application/json''),
                             (''client-id'', Some ''1000000001''),
                             (''access-token'', Some ''secret'')],
         req_params = Some [(''symbols'', PStr ''[\"TCS\"]'')],
         req_json = None\<rparr>]"
  "sent (dhan_invoke ((dhan_module example_getenv example_json)\<lparr>mcp_ctx := Some (Context 0)\<rparr>)
           json_network (Call_get_historical_daily ''TCS'' ''2024-01-01'' ''2024-01-31''))
     = [\<lparr>req_method = ''POST'',
         req_url = ''https://api.dhan.co/v2/charts/daily'',
         req_headers = Some [(''Content-Type'', Some ''application/json''),
                             (''client-id'', Some ''1000000001''),
                             (''access-token'', Some ''secret'')],
         req_params = Some [],
         req_json = Some (PDict [(''instrument'', PStr ''TCS''), (''from'', PStr ''2024-01-01''),
                                 (''to'', PStr ''2024-01-31'')])\<rparr>]"
  by (simp_all add: get_market_quote_def get_historical_daily_def getattr_ctx_def call_api_def
      params_or_empty_def serialize_def setitem_def str_list_def example_nets
      raise_for_status_def returned_def dhan_module_def example_getenv_def example_json_def
      encode_basestring_ascii_def escape_char_def Let_def)

theorem request_methods_witness:
  "example_json (str_list [''BTCUSDT'']) = Inr ''[\"BTCUSDT\"]''
   \<and> map req_method (sent (binance_invoke (binance_module example_json) json_network
                             (Call_TradingDayTicker [''BTCUSDT'']))) = [''GET'']
   \<and> map req_method
        (sent (dhan_invoke
                 ((dhan_module example_getenv example_json)\<lparr>mcp_ctx := Some (Context 0)\<rparr>)
                 json_network (Call_get_market_quote [''TCS'']))) = [''GET'']
   \<and> map req_method
        (sent (dhan_invoke
                 ((dhan_module example_getenv example_json)\<lparr>mcp_ctx := Some (Context 0)\<rparr>)
                 json_network (Call_get_historical_daily ''TCS'' ''2024-01-01'' ''2024-01-31'')))
       = [''POST'']"
proof -
  let ?g = "(dhan_module example_getenv example_json)\<lparr>mcp_ctx := Some (Context 0)\<rparr>"
  have h: "\<forall>xs. \<exists>s. binance_json (binance_module example_json) (str_list xs) = Inr s"
    by (simp add: binance_module_def example_json_str_list)
  have enc: "example_json (str_list [''BTCUSDT'']) = Inr ''[\"BTCUSDT\"]''"
    by (simp add: example_json_def str_list_def encode_basestring_ascii_def escape_char_def)
  obtain r1 where r1: "sent (dhan_invoke ?g json_network (Call_get_market_quote [''TCS''])) = [r1]"
    using example_requests(1) by blast
  obtain r2 where r2: "sent (dhan_invoke ?g json_network
      (Call_get_historical_daily ''TCS'' ''2024-01-01'' ''2024-01-31'')) = [r2]"
    using example_requests(2) by blast
  from request_methods[OF h, where net = json_network
      and c = "Call_TradingDayTicker [''BTCUSDT'']" and g' = ?g and net' = json_network
      and c' = "Call_get_market_quote [''TCS'']"] r1
  have a: "map req_method (sent (binance_invoke (binance_module example_json) json_network
                             (Call_TradingDayTicker [''BTCUSDT'']))) = [''GET'']"
    and b: "req_method r1 = ''GET''"
    by auto
  from request_methods[OF h, where net = json_network
      and c = "Call_TradingDayTicker [''BTCUSDT'']" and g' = ?g and net' = json_network
      and c' = "Call_get_historical_daily ''TCS'' ''2024-01-01'' ''2024-01-31''"] r2
  have c: "req_method r2 = ''POST''" by auto
  from enc a b c r1 r2 show ?thesis by simp
qed

text \<open>
  C3 as stated fails. \<open>get_historical_daily\<close> only fetches data and is no order-placement
  tool. In the module as loaded it raises \<open>AttributeError\<close> on \<open>mcp.ctx\<close> and issues no GET
  request; and once \<open>mcp\<close> has an attribute \<open>ctx\<close>, the request it issues is a POST request
  with a JSON body and no query parameters.
\<close>

theorem read_tool_posts:
  "\<not> order_placement (Call_get_historical_daily ''TCS'' ''2024-01-01'' ''2024-01-31'')
   \<and> sent (dhan_invoke (dhan_module example_getenv example_json) json_network
             (Call_get_historical_daily ''TCS'' ''2024-01-01'' ''2024-01-31'')) = []
   \<and> sent (dhan_invoke
             ((dhan_module example_getenv example_json)\<lparr>mcp_ctx := Some (Context 0)\<rparr>)
             json_network (Call_get_historical_daily ''TCS'' ''2024-01-01'' ''2024-01-31''))
     = [\<lparr>req_method = ''POST'',
         req_url = ''https://api.dhan.co/v2/charts/daily'',
         req_headers = Some [(''Content-Type'', Some ''application/json''),
                             (''client-id'', Some ''1000000001''),
                             (''access-token'', Some ''secret'')],
         req_params = Some [],
         req_json = Some (PDict [(''instrument'', PStr ''TCS''), (''from'', PStr ''2024-01-01''),
                                 (''to'', PStr ''2024-01-31'')])\<rparr>]"
proof -
  have "sent (dhan_invoke (dhan_module example_getenv example_json) json_network
             (Call_get_historical_daily ''TCS'' ''2024-01-01'' ''2024-01-31'')) = []"
    by (subst dhan_invoke_loaded) (simp add: raised_def)
  with example_requests(2) show ?thesis by simp
qed

lemma dhan_module_HEADERS:
  "HEADERS ((dhan_module getenv json)\<lparr>mcp_ctx := x\<rparr>) =
     [(''Content-Type'', Some ''application/json''),
      (''client-id'', getenv ''DHAN_CLIENT_ID''),
      (''access-token'', getenv ''DHAN_ACCESS_TOKEN'')]"
  "HEADERS (dhan_module getenv json) =
     [(''Content-Type'', Some ''application/json''),
      (''client-id'', getenv ''DHAN_CLIENT_ID''),
      (''access-token'', getenv ''DHAN_ACCESS_TOKEN'')]"
  by (simp_all add: dhan_module_def Let_def)

lemma call_api_headers:
  "req \<in> set (sent (call_api g net ctx method path params json_body)) \<Longrightarrow>
   req_headers req = Some (HEADERS g)"
  by (cases "serialize (dhan_json g) (params_or_empty params)")
     (auto simp: call_api_sent call_api_sent_raised)

lemma session_headers:
  "req \<in> set (concat (map sent (map (\<lambda>(net, c). dhan_invoke g net c) calls))) \<Longrightarrow>
   req_headers req = Some (HEADERS g)"
  using dhan_invoke_request by fastforce

text \<open>
  C4. The module reads \<open>DHAN_CLIENT_ID\<close> and \<open>DHAN_ACCESS_TOKEN\<close> when it is loaded. Every
  request that \<open>call_api\<close> sends after that, and every request sent in any sequence of
  invocations of brokerage tools, whatever \<open>mcp.ctx\<close> is, carries the same three headers:
  \<open>Content-Type\<close> with \<open>application/json\<close>, \<open>client-id\<close> and \<open>access-token\<close> with the values
  the two variables had at load time.
\<close>

theorem fixed_headers:
  "(\<forall>req \<in> set (sent (call_api (dhan_module getenv json) net ctx method path params json_body)).
      req_headers req =
        Some [(''Content-Type'', Some ''application/json''),
              (''client-id'', getenv ''DHAN_CLIENT_ID''),
              (''access-token'', getenv ''DHAN_ACCESS_TOKEN'')])
   \<and> (\<forall>req \<in> set (concat (map sent
                (session dhan_invoke ((dhan_module getenv json)\<lparr>mcp_ctx := x\<rparr>) calls))).
      req_headers req =
        Some [(''Content-Type'', Some ''application/json''),
              (''client-id'', getenv ''DHAN_CLIENT_ID''),
              (''access-token'', getenv ''DHAN_ACCESS_TOKEN'')])"
proof -
  have "session dhan_invoke ((dhan_module getenv json)\<lparr>mcp_ctx := x\<rparr>) calls
      = map (\<lambda>(net, c). dhan_invoke ((dhan_module getenv json)\<lparr>mcp_ctx := x\<rparr>) net c) calls"
    by (rule session_unchanged) (rule dhan_invoke_globals)
  then show ?thesis
    using call_api_headers[where g = "dhan_module getenv json"]
      session_headers[of _ "(dhan_module getenv json)\<lparr>mcp_ctx := x\<rparr>" calls]
    by (simp only: dhan_module_HEADERS) blast
qed

theorem fixed_headers_witness:
  "map req_headers
     (sent (call_api (dhan_module example_getenv example_json) json_network (Context 0)
              ''GET'' ''/orders'' None None))
     = [Some [(''Content-Type'', Some ''application/json''),
              (''client-id'', Some ''1000000001''),
              (''access-token'', Some ''secret'')]]
   \<and> map req_headers
     (concat (map sent
        (session dhan_invoke
           ((dhan_module example_getenv example_json)\<lparr>mcp_ctx := Some (Context 0)\<rparr>)
           [(json_network, Call_get_market_quote [''TCS'']),
            (json_network, Call_get_historical_daily ''TCS'' ''2024-01-01'' ''2024-01-31'')])))
     = [Some [(''Content-Type'', Some ''application/json''),
              (''client-id'', Some ''1000000001''),
              (''access-token'', Some ''secret'')],
        Some [(''Content-Type'', Some ''application/json''),
              (''client-id'', Some ''1000000001''),
              (''access-token'', Some ''secret'')]]"
proof -
  let ?g = "(dhan_module example_getenv example_json)\<lparr>mcp_ctx := Some (Context 0)\<rparr>"
  let ?calls = "[(json_network, Call_get_market_quote [''TCS'']),
            (json_network, Call_get_historical_daily ''TCS'' ''2024-01-01'' ''2024-01-31'')]"
  let ?h = "Some [(''Content-Type'', Some ''application/json''),
              (''client-id'', example_getenv ''DHAN_CLIENT_ID''),
              (''access-token'', example_getenv ''DHAN_ACCESS_TOKEN'')]"
  obtain r where r: "sent (call_api (dhan_module example_getenv example_json) json_network
      (Context 0) ''GET'' ''/orders'' None None) = [r]"
    using call_api_sent[OF serialize_empty] by blast
  have "session dhan_invoke ?g ?calls = map (\<lambda>(net, c). dhan_invoke ?g net c) ?calls"
    by (rule session_unchanged) (rule dhan_invoke_globals)
  then obtain r1 r2 where rs: "concat (map sent (session dhan_invoke ?g ?calls)) = [r1, r2]"
    using example_requests by simp
  note t = fixed_headers[of example_getenv example_json json_network "Context 0" "''GET''"
      "''/orders''" None None "Some (Context 0)" ?calls]
  from t have "\<forall>req \<in> set (sent (call_api (dhan_module example_getenv example_json)
      json_network (Context 0) ''GET'' ''/orders'' None None)). req_headers req = ?h"
    and "\<forall>req \<in> set (concat (map sent (session dhan_invoke ?g ?calls))). req_headers req = ?h"
    by blast+
  then have "\<forall>req \<in> set [r]. req_headers req = ?h" "\<forall>req \<in> set [r1, r2]. req_headers req = ?h"
    unfolding r rs by blast+
  then have "map req_headers [r] = [?h]" "map req_headers [r1, r2] = [?h, ?h]" by simp_all
  then show ?thesis unfolding r rs by (simp add: example_getenv_def)
qed

text \<open>
  C5 fails in the brokerage adapter. In the module as loaded \<open>mcp\<close> has no attribute \<open>ctx\<close>,
  so every tool of the brokerage adapter raises \<open>AttributeError\<close> when it evaluates
  \<open>mcp.ctx\<close>, before it reaches \<open>call_api\<close>: the invocation issues no HTTP request at all.
\<close>

theorem brokerage_tool_sends_nothing:
  "sent (dhan_invoke (dhan_module getenv json) net c) = []
   \<and> result (dhan_invoke (dhan_module getenv json) net c) = Inl AttributeError"
  by (subst dhan_invoke_loaded, subst dhan_invoke_loaded) (simp add: raised_def)

text \<open>
  C6. \<open>getTradeData\<close> issues one GET request to \<open>BASE_URL\<close> followed by \<open>klines\<close>, with no
  body; its query parameters are the entries of \<open>symbol\<close>, \<open>interval\<close>, \<open>startTime\<close>,
  \<open>endTime\<close>, \<open>limit\<close> that are not \<open>None\<close>, in this order: \<open>symbol\<close> and \<open>interval\<close> are
  always there, and each of the other three is there exactly when it was given.
\<close>

theorem getTradeData_request:
  "\<exists>params.
     sent (getTradeData g net symbol interval startTime endTime limit) =
       [\<lparr>req_method = ''GET'', req_url = binance_BASE_URL g @ ''klines'', req_headers = None,
         req_params = Some params, req_json = None\<rparr>]
     \<and> params = filter (\<lambda>(k, v). v \<noteq> PNone)
                  [(''symbol'', PStr symbol), (''interval'', PStr interval),
                   (''startTime'', opt_int startTime), (''endTime'', opt_int endTime),
                   (''limit'', opt_int limit)]
     \<and> map_of params ''symbol'' = Some (PStr symbol)
     \<and> map_of params ''interval'' = Some (PStr interval)
     \<and> map_of params ''startTime'' = map_option PInt startTime
     \<and> map_of params ''endTime'' = map_option PInt endTime
     \<and> map_of params ''limit'' = map_option PInt limit
     \<and> binance_BASE_URL (binance_module json) @ ''klines''
         = ''https://api.binance.com/api/v3/klines''"
  by (cases startTime; cases endTime; cases limit)
     (simp_all add: getTradeData_def serialize_params_def setitem_def opt_int_def
        client_get_text_sent binance_module_def)

text \<open>
  C7. An invocation, whether it returns or raises, leaves the globals of its module as they
  were: \<open>BASE_URL\<close>, \<open>HEADERS\<close>, \<open>CLIENT_ID\<close>, \<open>ACCESS_TOKEN\<close> and the registered tools. So in
  a sequence of invocations each one does what it would do as the first: nothing that an
  earlier invocation produced reaches it.
\<close>

theorem globals_unchanged:
  "globals_after (binance_invoke g net c) = g
   \<and> globals_after (dhan_invoke g' net' c') = g'
   \<and> session binance_invoke g calls = map (\<lambda>(net, c). binance_invoke g net c) calls
   \<and> session dhan_invoke g' calls' = map (\<lambda>(net, c). dhan_invoke g' net c) calls'"
  using binance_invoke_globals dhan_invoke_globals
    session_unchanged[of binance_invoke g calls] session_unchanged[of dhan_invoke g' calls']
  by simp

lemma call_api_ctx_global:
  "result (call_api (g\<lparr>mcp_ctx := a\<rparr>) net ctx method path params json_body)
     = result (call_api g net ctx' method path params json_body)"
  "sent (call_api (g\<lparr>mcp_ctx := a\<rparr>) net ctx method path params json_body)
     = sent (call_api g net ctx' method path params json_body)"
  by (simp_all add: call_api_def raised_def returned_def Let_def split: sum.splits)

lemma dhan_invoke_ctx_global:
  "result (dhan_invoke (g\<lparr>mcp_ctx := Some a\<rparr>) net c)
     = result (dhan_invoke (g\<lparr>mcp_ctx := Some b\<rparr>) net c)"
  "sent (dhan_invoke (g\<lparr>mcp_ctx := Some a\<rparr>) net c)
     = sent (dhan_invoke (g\<lparr>mcp_ctx := Some b\<rparr>) net c)"
proof -
  have r: "result (call_api (g\<lparr>mcp_ctx := x\<rparr>) net ctx m p ps jb)
      = result (call_api g net (Context 0) m p ps jb)"
    "sent (call_api (g\<lparr>mcp_ctx := x\<rparr>) net ctx m p ps jb)
      = sent (call_api g net (Context 0) m p ps jb)" for x ctx m p ps jb
    by (rule call_api_ctx_global)+
  show "result (dhan_invoke (g\<lparr>mcp_ctx := Some a\<rparr>) net c)
     = result (dhan_invoke (g\<lparr>mcp_ctx := Some b\<rparr>) net c)"
    by (cases c; simp add: dhan_tool_defs getattr_ctx_def r Let_def)
  show "sent (dhan_invoke (g\<lparr>mcp_ctx := Some a\<rparr>) net c)
     = sent (dhan_invoke (g\<lparr>mcp_ctx := Some b\<rparr>) net c)"
    by (cases c; simp add: dhan_tool_defs getattr_ctx_def r Let_def)
qed

text \<open>
  C9. \<open>call_api\<close> never reads \<open>ctx\<close>: with two contexts and the same other arguments it makes
  the same request and has the same result. Every brokerage tool passes \<open>mcp.ctx\<close> for
  it, so the requests and the result of an invocation do not depend on the value of
  \<open>mcp.ctx\<close> either.
\<close>

theorem call_api_ignores_ctx:
  "call_api g net ctx1 method path params json_body
     = call_api g net ctx2 method path params json_body
   \<and> result (dhan_invoke (g\<lparr>mcp_ctx := Some ctx1\<rparr>) net c)
       = result (dhan_invoke (g\<lparr>mcp_ctx := Some ctx2\<rparr>) net c)
   \<and> sent (dhan_invoke (g\<lparr>mcp_ctx := Some ctx1\<rparr>) net c)
       = sent (dhan_invoke (g\<lparr>mcp_ctx := Some ctx2\<rparr>) net c)"
  using dhan_invoke_ctx_global[where g = g and a = ctx1 and b = ctx2 and net = net and c = c]
  by (simp add: call_api_def)

text \<open>
  C10 fails in the module as loaded: \<open>place_after_market_order\<close> raises \<open>AttributeError\<close>
  when it evaluates \<open>mcp.ctx\<close> and issues no request. What it has built by then is what the
  claim says: once \<open>mcp\<close> has an attribute \<open>ctx\<close>, it issues one POST request to \<open>BASE_URL\<close>
  followed by \<open>/orders\<close> whose JSON body has \<open>afterMarket\<close> set to \<open>True\<close> and \<open>productType\<close>
  set to the argument \<open>product_type\<close>, which is \<open>DELIVERY\<close> when the argument is left out.
\<close>

theorem place_after_market_order_raises:
  "result (place_after_market_order (dhan_module example_getenv example_json) json_network
             ''TCS'' ''1.0'' ''100.0'' ''BUY'' None) = Inl AttributeError
   \<and> sent (place_after_market_order (dhan_module example_getenv example_json) json_network
             ''TCS'' ''1.0'' ''100.0'' ''BUY'' None) = []
   \<and> (\<exists>body.
      sent (place_after_market_order (g\<lparr>mcp_ctx := Some ctx\<rparr>) net symbol qty price side
              product_type) =
        [\<lparr>req_method = ''POST'', req_url = dhan_BASE_URL g @ ''/orders'',
          req_headers = Some (HEADERS g), req_params = Some [],
          req_json = Some (PDict body)\<rparr>]
      \<and> map_of body ''afterMarket'' = Some (PBool True)
      \<and> map_of body ''productType'' = Some (PStr (default_arg ''DELIVERY'' product_type)))"
proof -
  have e: "serialize (dhan_json (g\<lparr>mcp_ctx := Some ctx\<rparr>)) (params_or_empty None) = Inr []"
    by (rule serialize_empty)
  have loaded: "place_after_market_order (dhan_module example_getenv example_json) json_network
      ''TCS'' ''1.0'' ''100.0'' ''BUY'' None
      = raised AttributeError [] (dhan_module example_getenv example_json)"
    by (simp add: place_after_market_order_def getattr_ctx_loaded)
  have built: "\<exists>body.
      sent (place_after_market_order (g\<lparr>mcp_ctx := Some ctx\<rparr>) net symbol qty price side
              product_type) =
        [\<lparr>req_method = ''POST'', req_url = dhan_BASE_URL g @ ''/orders'',
          req_headers = Some (HEADERS g), req_params = Some [],
          req_json = Some (PDict body)\<rparr>]
      \<and> map_of body ''afterMarket'' = Some (PBool True)
      \<and> map_of body ''productType'' = Some (PStr (default_arg ''DELIVERY'' product_type))"
    by (simp add: place_after_market_order_def getattr_ctx_def call_api_sent[OF e]
        default_arg_def)
  from built show ?thesis unfolding loaded by (simp add: raised_def)
qed

end
